theory Spec2Isabelle
  imports Complex_Main "HOL-Library.Char_ord" "HOL-Library.List_Lexorder"
begin

section \<open>The platform game of main.py\<close>

text \<open>
  A shallow embedding of the per-frame pipeline of \<^verbatim>\<open>main.py\<close>: the player
  sprite and its animation selector (\<^verbatim>\<open>PlayerCharacter\<close>), and the game view
  (\<^verbatim>\<open>GameView\<close>) with its key handlers, level loading and frame update.

  Python's numbers (the integers and floats of positions, speeds and camera samples)
  are rationals. The float arithmetic of the parallax background, whose results the
  statements below speak about, rounds the result of every operation with the rounding
  function \<open>round_float\<close> of the surroundings; the few other operations on floats are
  read as exact. The Arcade library is an external collaborator: what it computes (the
  physics step, the ground and ladder tests, the collision test, the camera position, the
  loaded tile maps) enters every function as an explicit argument, so every theorem holds
  for whatever the library
  returns.
\<close>

subsection \<open>Constants\<close>

definition SCREEN_WIDTH :: rat where
  "SCREEN_WIDTH = 1000"

definition SCREEN_HEIGHT :: rat where
  "SCREEN_HEIGHT = 650"

definition TILE_SCALING :: rat where
  "TILE_SCALING = 4"

definition SPRITE_PIXEL_SIZE :: rat where
  "SPRITE_PIXEL_SIZE = 128"

definition GRID_PIXEL_SIZE :: rat where
  "GRID_PIXEL_SIZE = SPRITE_PIXEL_SIZE * TILE_SCALING"

definition PLAYER_MOVEMENT_SPEED :: rat where
  "PLAYER_MOVEMENT_SPEED = 7"

definition PLAYER_JUMP_SPEED :: rat where
  "PLAYER_JUMP_SPEED = 30"

definition PLAYER_START_X :: rat where
  "PLAYER_START_X = SCREEN_WIDTH / 4"

definition PLAYER_START_Y :: rat where
  "PLAYER_START_Y = SCREEN_HEIGHT / 4"

definition LAYER_NAME_PLATFORMS :: string where
  "LAYER_NAME_PLATFORMS = ''Platforms''"

definition LAYER_NAME_PLATFORMS_1 :: string where
  "LAYER_NAME_PLATFORMS_1 = ''Platforms_1''"

definition LAYER_NAME_PLATFORMS_2 :: string where
  "LAYER_NAME_PLATFORMS_2 = ''Platforms_2''"

definition LAYER_NAME_COINS :: string where
  "LAYER_NAME_COINS = ''Coins''"

definition LAYER_NAME_PLAYER :: string where
  "LAYER_NAME_PLAYER = ''Player''"

definition LAYER_NAME_DECORATIONS :: string where
  "LAYER_NAME_DECORATIONS = ''Decorations''"

definition NON_BACKGROUND_LAYERS :: "string list" where
  "NON_BACKGROUND_LAYERS =
     [LAYER_NAME_PLATFORMS, LAYER_NAME_PLATFORMS_1, LAYER_NAME_PLATFORMS_2,
      LAYER_NAME_PLAYER, LAYER_NAME_COINS, LAYER_NAME_DECORATIONS]"

definition END_OF_MAP :: "rat list" where
  "END_OF_MAP = [29 / 4, 613 / 50, 613 / 50, 613 / 50]"

subsection \<open>Errors and Python's subscripts\<close>

datatype error = IndexError | KeyError string | FileNotFoundError

text \<open>\<^verbatim>\<open>xs[i]\<close> on a list: a negative index counts from the end, an index
  outside the list raises.\<close>

definition py_index :: "'a list \<Rightarrow> int \<Rightarrow> error + 'a" where
  "py_index xs i =
     (if 0 \<le> i \<and> i < int (length xs) then Inr (xs ! nat i)
      else if i < 0 \<and> - int (length xs) \<le> i then Inr (xs ! nat (int (length xs) + i))
      else Inl IndexError)"

text \<open>\<^verbatim>\<open>d[k]\<close> on a dictionary kept as an association list: a missing key raises.\<close>

definition py_getitem :: "(string \<times> 'v) list \<Rightarrow> string \<Rightarrow> error + 'v" where
  "py_getitem d k = (case map_of d k of None \<Rightarrow> Inl (KeyError k) | Some v \<Rightarrow> Inr v)"

text \<open>Sequencing of steps that may raise: the first error ends the computation.\<close>

definition and_then :: "error + 'a \<Rightarrow> ('a \<Rightarrow> error + 'b) \<Rightarrow> error + 'b" where
  "and_then m f = (case m of Inl e \<Rightarrow> Inl e | Inr x \<Rightarrow> f x)"

subsection \<open>The player sprite\<close>

datatype facing = RIGHT_FACING | LEFT_FACING

text \<open>The position a facing direction selects in a texture pair
  (\<^verbatim>\<open>RIGHT_FACING = 0\<close>, \<^verbatim>\<open>LEFT_FACING = 1\<close>).\<close>

fun face_index :: "facing \<Rightarrow> nat" where
  "face_index RIGHT_FACING = 0"
| "face_index LEFT_FACING = 1"

text \<open>The image files of the player, and a loaded texture: the image and whether it is
  flipped horizontally.\<close>

datatype image = Idle_png | Jump_png | Fall_png | Walk_png nat | Climb_png nat

type_synonym texture = "image \<times> bool"

definition load_texture_pair :: "image \<Rightarrow> texture list" where
  "load_texture_pair filename = [(filename, False), (filename, True)]"

definition idle_texture_pair :: "texture list" where
  "idle_texture_pair = load_texture_pair Idle_png"

definition jump_texture_pair :: "texture list" where
  "jump_texture_pair = load_texture_pair Jump_png"

definition fall_texture_pair :: "texture list" where
  "fall_texture_pair = load_texture_pair Fall_png"

definition walk_textures :: "texture list list" where
  "walk_textures = map (\<lambda>i. load_texture_pair (Walk_png i)) [0..<8]"

definition climbing_textures :: "texture list" where
  "climbing_textures = [(Climb_png 0, False), (Climb_png 1, False)]"

text \<open>The fields of \<^verbatim>\<open>PlayerCharacter\<close> that the game reads or writes. The attribute
  \<^verbatim>\<open>can_jump\<close> does not exist until the first frame update assigns it.\<close>

record player =
  center_x :: rat
  center_y :: rat
  change_x :: rat
  change_y :: rat
  character_face_direction :: facing
  cur_texture :: int
  jumping :: bool
  climbing :: bool
  is_on_ladder :: bool
  can_jump :: "bool option"
  texture :: texture

text \<open>\<^verbatim>\<open>PlayerCharacter.__init__\<close>: a sprite at the origin, at rest, facing right,
  showing the idle texture.\<close>

definition PlayerCharacter_init :: player where
  "PlayerCharacter_init =
     \<lparr> center_x = 0, center_y = 0, change_x = 0, change_y = 0,
       character_face_direction = RIGHT_FACING, cur_texture = 0,
       jumping = False, climbing = False, is_on_ladder = False,
       can_jump = None, texture = idle_texture_pair ! 0 \<rparr>"

text \<open>\<^verbatim>\<open>self.cur_texture += 1; if self.cur_texture > 7: self.cur_texture = 0\<close>\<close>

definition next_frame :: "player \<Rightarrow> player" where
  "next_frame p =
     (let q = p\<lparr>cur_texture := cur_texture p + 1\<rparr>
      in if cur_texture q > 7 then q\<lparr>cur_texture := 0\<rparr> else q)"

text \<open>The first statement of \<^verbatim>\<open>update_animation\<close>: flip the facing direction.\<close>

definition flip_face :: "player \<Rightarrow> player" where
  "flip_face p =
     (if change_x p < 0 \<and> character_face_direction p = RIGHT_FACING
        then p\<lparr>character_face_direction := LEFT_FACING\<rparr>
      else if change_x p > 0 \<and> character_face_direction p = LEFT_FACING
        then p\<lparr>character_face_direction := RIGHT_FACING\<rparr>
      else p)"

text \<open>The two statements that maintain the climbing flag.\<close>

definition set_climbing :: "player \<Rightarrow> player" where
  "set_climbing p =
     (let p1 = (if is_on_ladder p then p\<lparr>climbing := True\<rparr> else p)
      in if \<not> is_on_ladder p1 \<and> climbing p1 then p1\<lparr>climbing := False\<rparr> else p1)"

text \<open>\<^verbatim>\<open>PlayerCharacter.update_animation\<close>, statement by statement; each \<^verbatim>\<open>return\<close>
  is a branch that yields the player.\<close>

definition update_animation :: "player \<Rightarrow> error + player" where
  "update_animation p0 =
     (let p1 = flip_face p0;
          p2 = set_climbing p1;
          p3 = (if climbing p2 \<and> \<bar>change_y p2\<bar> > 1 then next_frame p2 else p2)
      in if climbing p3 then
           and_then (py_index climbing_textures (cur_texture p3 div 4))
             (\<lambda>t. Inr (p3\<lparr>texture := t\<rparr>))
         else if change_y p3 > 0 \<and> \<not> is_on_ladder p3 then
           Inr (p3\<lparr>texture := jump_texture_pair ! face_index (character_face_direction p3)\<rparr>)
         else if change_y p3 < 0 \<and> \<not> is_on_ladder p3 then
           Inr (p3\<lparr>texture := fall_texture_pair ! face_index (character_face_direction p3)\<rparr>)
         else if change_x p3 = 0 then
           Inr (p3\<lparr>texture := idle_texture_pair ! face_index (character_face_direction p3)\<rparr>)
         else
           (let p4 = next_frame p3
            in and_then (py_index walk_textures (cur_texture p4))
                 (\<lambda>pair. Inr (p4\<lparr>texture := pair ! face_index (character_face_direction p4)\<rparr>))))"

subsection \<open>What the library supplies\<close>

text \<open>A sprite of a tile map is named by a number (its identity as an object). A loaded
  tile map gives the sprite list of every tile layer, by layer name, and the left
  coordinate of every sprite. \<^verbatim>\<open>Scene.from_tilemap\<close> puts these same sprite lists into the
  scene, so one association list stands for both \<^verbatim>\<open>tile_map.sprite_lists\<close> and
  \<^verbatim>\<open>scene.name_mapping\<close>.\<close>

record tile_map =
  sprite_lists :: "(string \<times> nat list) list"
  sprite_left0 :: "nat \<Rightarrow> rat"

text \<open>The surroundings of the game: the map file of each level (\<open>None\<close> when there is no
  such file), the distance from the player's centre to the right edge of its hit box,
  the size of the window, and the rounding of an exact result to a float (an operation
  \<^verbatim>\<open>x + y\<close>, \<^verbatim>\<open>x - y\<close>, \<^verbatim>\<open>x * y\<close> or \<^verbatim>\<open>x / y\<close> on Python floats returns the exact
  result rounded).\<close>

record env =
  load_tilemap :: "int \<Rightarrow> tile_map option"
  hit_box_right :: rat
  viewport_width :: rat
  viewport_height :: rat
  round_float :: "rat \<Rightarrow> rat"

text \<open>The answers of the physics engine when a key handler asks:
  \<^verbatim>\<open>is_on_ladder()\<close> and \<^verbatim>\<open>can_jump(y_distance=10)\<close>.\<close>

record phys_query =
  q_is_on_ladder :: bool
  q_can_jump :: bool

text \<open>What the library returns during one frame update: the player's position and
  velocity after \<^verbatim>\<open>physics_engine.update()\<close>, the answers of \<^verbatim>\<open>can_jump()\<close>,
  \<^verbatim>\<open>can_jump(y_distance=10)\<close> and \<^verbatim>\<open>is_on_ladder()\<close> at the new position, the camera's
  x position, and the sprites whose hit boxes overlap the player's.\<close>

record frame_input =
  phys_center_x :: rat
  phys_center_y :: rat
  phys_change_x :: rat
  phys_change_y :: rat
  phys_can_jump :: bool
  phys_can_jump_10 :: bool
  phys_is_on_ladder :: bool
  camera_position_x :: rat
  colliding :: "nat list"

datatype key = Key_UP | Key_W | Key_DOWN | Key_S | Key_LEFT | Key_A | Key_RIGHT | Key_D
  | Key_SPACE | Key_other

text \<open>The calls to the audio collaborator, in the order they are made.\<close>

datatype sound_call = Play_jump | Play_coin | Play_victory | Play_theme | Stop_theme

subsection \<open>The game view\<close>

text \<open>The fields of \<^verbatim>\<open>GameView\<close>. \<open>sprite_left\<close> is the store of the sprites' left
  coordinates; \<open>sounds\<close> logs the audio calls; \<open>camera_goal\<close> is the target handed to
  \<^verbatim>\<open>camera.move_to\<close>; \<open>end_view_shown\<close> records \<^verbatim>\<open>window.show_view(EndView())\<close>.
  The attribute \<^verbatim>\<open>camera_x\<close> is written and read only inside \<^verbatim>\<open>on_update\<close> and is a
  local value of the model. The player sprite itself is kept in \<open>player_sprite\<close>; the
  scene's layer \<^verbatim>\<open>Player\<close> that holds it is a key of \<open>name_mapping\<close>.\<close>

record game =
  left_pressed :: bool
  right_pressed :: bool
  up_pressed :: bool
  down_pressed :: bool
  jump_needs_reset :: bool
  name_mapping :: "(string \<times> nat list) list"
  sprite_left :: "nat \<Rightarrow> rat"
  player_sprite :: player
  end_of_map :: rat
  score :: int
  level :: int
  max_level :: int
  level_over :: bool
  next_level :: bool
  camera_x_prev :: rat
  camera_goal :: "rat \<times> rat"
  background_layer_names :: "string list"
  sounds :: "sound_call list"
  end_view_shown :: bool

text \<open>\<^verbatim>\<open>sprite.right\<close>: the right edge of the player's hit box.\<close>

definition right :: "env \<Rightarrow> player \<Rightarrow> rat" where
  "right e p = center_x p + hit_box_right e"

definition set_change_x :: "rat \<Rightarrow> game \<Rightarrow> game" where
  "set_change_x v s = s\<lparr>player_sprite := (player_sprite s)\<lparr>change_x := v\<rparr>\<rparr>"

definition set_change_y :: "rat \<Rightarrow> game \<Rightarrow> game" where
  "set_change_y v s = s\<lparr>player_sprite := (player_sprite s)\<lparr>change_y := v\<rparr>\<rparr>"

text \<open>\<^verbatim>\<open>process_keychange\<close>, in its three parts: up and down; up and down on a ladder with
  no movement; left and right.\<close>

definition process_up_down :: "phys_query \<Rightarrow> game \<Rightarrow> game" where
  "process_up_down q s =
     (if up_pressed s \<and> \<not> down_pressed s then
        (if q_is_on_ladder q then set_change_y PLAYER_MOVEMENT_SPEED s
         else if q_can_jump q \<and> \<not> jump_needs_reset s then
           (set_change_y PLAYER_JUMP_SPEED s)
             \<lparr>jump_needs_reset := True, sounds := sounds s @ [Play_jump]\<rparr>
         else s)
      else if down_pressed s \<and> \<not> up_pressed s then
        (if q_is_on_ladder q then set_change_y (- PLAYER_MOVEMENT_SPEED) s else s)
      else s)"

definition process_ladder_rest :: "phys_query \<Rightarrow> game \<Rightarrow> game" where
  "process_ladder_rest q s =
     (if q_is_on_ladder q then
        (if \<not> up_pressed s \<and> \<not> down_pressed s then set_change_y 0 s
         else if up_pressed s \<and> down_pressed s then set_change_y 0 s
         else s)
      else s)"

definition process_left_right :: "game \<Rightarrow> game" where
  "process_left_right s =
     (if right_pressed s \<and> \<not> left_pressed s then set_change_x PLAYER_MOVEMENT_SPEED s
      else if left_pressed s \<and> \<not> right_pressed s then set_change_x (- PLAYER_MOVEMENT_SPEED) s
      else set_change_x 0 s)"

definition process_keychange :: "phys_query \<Rightarrow> game \<Rightarrow> game" where
  "process_keychange q s =
     (if \<not> level_over s
      then process_left_right (process_ladder_rest q (process_up_down q s))
      else s)"

definition on_key_press :: "key \<Rightarrow> phys_query \<Rightarrow> game \<Rightarrow> game" where
  "on_key_press k q s =
     process_keychange q
       (if k = Key_UP \<or> k = Key_W then s\<lparr>up_pressed := True\<rparr>
        else if k = Key_DOWN \<or> k = Key_S then s\<lparr>down_pressed := True\<rparr>
        else if k = Key_LEFT \<or> k = Key_A then s\<lparr>left_pressed := True\<rparr>
        else if k = Key_RIGHT \<or> k = Key_D then s\<lparr>right_pressed := True\<rparr>
        else if k = Key_SPACE \<and> level_over s then s\<lparr>next_level := True\<rparr>
        else s)"

definition on_key_release :: "key \<Rightarrow> phys_query \<Rightarrow> game \<Rightarrow> game" where
  "on_key_release k q s =
     process_keychange q
       (if k = Key_UP \<or> k = Key_W then s\<lparr>up_pressed := False, jump_needs_reset := False\<rparr>
        else if k = Key_DOWN \<or> k = Key_S then s\<lparr>down_pressed := False\<rparr>
        else if k = Key_LEFT \<or> k = Key_A then s\<lparr>left_pressed := False\<rparr>
        else if k = Key_RIGHT \<or> k = Key_D then s\<lparr>right_pressed := False\<rparr>
        else s)"

text \<open>\<^verbatim>\<open>center_camera_to_player\<close>: the camera is sent to the player's centre, not below
  0 on either axis.\<close>

definition center_camera_to_player :: "env \<Rightarrow> game \<Rightarrow> game" where
  "center_camera_to_player e s =
     (let screen_center_x = center_x (player_sprite s) - viewport_width e / 2;
          screen_center_y = center_y (player_sprite s) - viewport_height e / 2;
          screen_center_x = (if screen_center_x < 0 then 0 else screen_center_x);
          screen_center_y = (if screen_center_y < 0 then 0 else screen_center_y)
      in s\<lparr>camera_goal := (screen_center_x, screen_center_y)\<rparr>)"

subsection \<open>Loading a level\<close>

text \<open>\<^verbatim>\<open>Scene.from_tilemap\<close> followed by \<^verbatim>\<open>scene.add_sprite(LAYER_NAME_PLAYER, ...)\<close>: the
  layer of the player is created when the map has none of that name.\<close>

definition scene_with_player :: "tile_map \<Rightarrow> (string \<times> nat list) list" where
  "scene_with_player tm =
     (if LAYER_NAME_PLAYER \<in> set (map fst (sprite_lists tm)) then sprite_lists tm
      else sprite_lists tm @ [(LAYER_NAME_PLAYER, [])])"

text \<open>\<^verbatim>\<open>d[k].extend(xs)\<close> on the association list.\<close>

definition extend_layer :: "string \<Rightarrow> nat list \<Rightarrow> (string \<times> nat list) list \<Rightarrow> (string \<times> nat list) list" where
  "extend_layer k xs d = map (\<lambda>(n, l). if n = k then (n, l @ xs) else (n, l)) d"

text \<open>The walls of a level: for a level above 1 the sprites of \<^verbatim>\<open>Platforms_1\<close> and
  \<^verbatim>\<open>Platforms_2\<close> are appended to \<^verbatim>\<open>Platforms\<close>; the physics engine is then built
  on \<^verbatim>\<open>Platforms\<close>. Every subscript raises \<^verbatim>\<open>KeyError\<close> on a missing layer.\<close>

definition merge_platforms :: "int \<Rightarrow> (string \<times> nat list) list \<Rightarrow> error + (string \<times> nat list) list" where
  "merge_platforms lv d =
     and_then
       (if lv > 1 then
          and_then (py_getitem d LAYER_NAME_PLATFORMS) (\<lambda>_.
          and_then (py_getitem d (LAYER_NAME_PLATFORMS @ ''_1'')) (\<lambda>p1.
            (let d1 = extend_layer LAYER_NAME_PLATFORMS p1 d
             in and_then (py_getitem d1 LAYER_NAME_PLATFORMS) (\<lambda>_.
                and_then (py_getitem d1 (LAYER_NAME_PLATFORMS @ ''_2'')) (\<lambda>p2.
                  Inr (extend_layer LAYER_NAME_PLATFORMS p2 d1))))))
        else Inr d)
       (\<lambda>d'. and_then (py_getitem d' LAYER_NAME_PLATFORMS) (\<lambda>_. Inr d'))"

text \<open>\<^verbatim>\<open>load_level\<close>: a new scene from the map file, a new player sprite at the start
  position, the end of the map from the table, the walls, the sorted names of the
  background layers, and the camera sample reset.\<close>

definition load_level :: "env \<Rightarrow> int \<Rightarrow> game \<Rightarrow> error + game" where
  "load_level e lv s =
     (case load_tilemap e lv of
        None \<Rightarrow> Inl FileNotFoundError
      | Some tm \<Rightarrow>
          and_then (py_index END_OF_MAP (lv - 1)) (\<lambda>eom.
          and_then (merge_platforms lv (scene_with_player tm)) (\<lambda>scene.
            Inr (s\<lparr> name_mapping := scene,
                    sprite_left := sprite_left0 tm,
                    player_sprite := PlayerCharacter_init
                       \<lparr>center_x := PLAYER_START_X, center_y := PLAYER_START_Y\<rparr>,
                    end_of_map := eom * GRID_PIXEL_SIZE,
                    background_layer_names :=
                       sort (filter (\<lambda>name. name \<notin> set NON_BACKGROUND_LAYERS) (map fst scene)),
                    camera_x_prev := PLAYER_START_X \<rparr>))))"

text \<open>\<^verbatim>\<open>GameView.__init__\<close>. The fields it sets to \<^verbatim>\<open>None\<close> (the scene, the player
  sprite) hold placeholders here: \<^verbatim>\<open>setup\<close> runs right after the constructor
  (\<^verbatim>\<open>update_fade\<close>) and \<^verbatim>\<open>load_level\<close> overwrites them before any handler reads them.\<close>

definition GameView_init :: game where
  "GameView_init =
     \<lparr> left_pressed = False, right_pressed = False, up_pressed = False,
       down_pressed = False, jump_needs_reset = False,
       name_mapping = [], sprite_left = (\<lambda>_. 0), player_sprite = PlayerCharacter_init,
       end_of_map = 0, score = 0, level = 1, max_level = 4,
       level_over = False, next_level = False,
       camera_x_prev = PLAYER_START_X, camera_goal = (0, 0),
       background_layer_names = [], sounds = [], end_view_shown = False \<rparr>"

text \<open>\<^verbatim>\<open>setup\<close>: load the current level, set the score to 0, start the theme music.\<close>

definition GameView_setup :: "env \<Rightarrow> game \<Rightarrow> error + game" where
  "GameView_setup e s =
     and_then (load_level e (level s) s)
       (\<lambda>s1. Inr (s1\<lparr>score := 0, sounds := sounds s1 @ [Play_theme]\<rparr>))"

subsection \<open>The frame update\<close>

text \<open>\<^verbatim>\<open>for sprite in layer: sprite.left += d\<close>, the sum rounded by \<open>rnd\<close>.\<close>

fun shift_sprites :: "(rat \<Rightarrow> rat) \<Rightarrow> rat \<Rightarrow> nat list \<Rightarrow> (nat \<Rightarrow> rat) \<Rightarrow> (nat \<Rightarrow> rat)" where
  "shift_sprites rnd d [] st = st"
| "shift_sprites rnd d (sprite # rest) st =
     shift_sprites rnd d rest (st(sprite := rnd (st sprite + d)))"

text \<open>The parallax loop over \<^verbatim>\<open>enumerate(self.background_layer_names)\<close>, from position
  \<open>count\<close> on; \<open>dx\<close> is the float \<^verbatim>\<open>self.camera_x - self.camera_x_prev\<close>. The shift of a
  layer is \<^verbatim>\<open>dx / ((count + 4) * 0.25)\<close>: the product is rounded, then the quotient.\<close>

fun parallax :: "(rat \<Rightarrow> rat) \<Rightarrow> int \<Rightarrow> rat \<Rightarrow> (string \<times> nat list) list \<Rightarrow> nat \<Rightarrow> string list
    \<Rightarrow> (nat \<Rightarrow> rat) \<Rightarrow> error + (nat \<Rightarrow> rat)" where
  "parallax rnd lv dx d count [] st = Inr st"
| "parallax rnd lv dx d count (sprite_name # rest) st =
     (if lv = 4 \<and> count = 3 then parallax rnd lv dx d (Suc count) rest st
      else (case py_getitem d sprite_name of
              Inl err \<Rightarrow> Inl err
            | Inr layer \<Rightarrow>
                parallax rnd lv dx d (Suc count) rest
                  (shift_sprites rnd (rnd (dx / rnd ((of_nat count + 4) * (1 / 4)))) layer st)))"

text \<open>One pass of the loop over the coins that were hit: ten points, the coin leaves
  every sprite list (a sprite list holds a sprite at most once), the sound plays.\<close>

definition collect_coin :: "nat \<Rightarrow> game \<Rightarrow> game" where
  "collect_coin coin s =
     s\<lparr> score := score s + 10,
        name_mapping := map (\<lambda>(n, l). (n, removeAll coin l)) (name_mapping s),
        sounds := sounds s @ [Play_coin] \<rparr>"

text \<open>\<^verbatim>\<open>arcade.check_for_collision_with_list(self.player_sprite, coins)\<close>: the sprites of
  the list that overlap the player.\<close>

definition check_for_collision_with_list :: "frame_input \<Rightarrow> nat list \<Rightarrow> nat list" where
  "check_for_collision_with_list inp coins = filter (\<lambda>c. c \<in> set (colliding inp)) coins"

text \<open>The first branch of \<^verbatim>\<open>on_update\<close>: the player's right edge is at or beyond the
  end of the map. (\<^verbatim>\<open>time.sleep(2)\<close> has no effect on the state.)\<close>

definition level_end :: "env \<Rightarrow> game \<Rightarrow> error + game" where
  "level_end e s =
     (let s1 = (if level s = 4 \<and> \<not> level_over s
                then s\<lparr>sounds := sounds s @ [Play_victory]\<rparr> else s)
      in if level s1 < max_level s1 then
           (let s2 = s1\<lparr>level_over := True\<rparr>
            in if next_level s2 then
                 (let s3 = s2\<lparr>level_over := False, next_level := False, level := level s2 + 1\<rparr>
                  in and_then (load_level e (level s3) s3) (\<lambda>s4.
                       Inr (s4\<lparr>player_sprite := (player_sprite s4)
                              \<lparr>center_x := SCREEN_WIDTH, center_y := SCREEN_HEIGHT / 2,
                               change_x := 0, change_y := 0\<rparr>\<rparr>)))
               else Inr s2)
         else
           (let s2 = s1\<lparr>sounds := sounds s1 @ [Stop_theme], level_over := True\<rparr>
            in if next_level s2 then Inr (s2\<lparr>end_view_shown := True\<rparr>) else Inr s2))"

text \<open>The second branch of \<^verbatim>\<open>on_update\<close>, in the order of the source. First the
  physics engine moves the player, the attributes \<^verbatim>\<open>can_jump\<close> and \<^verbatim>\<open>is_on_ladder\<close> of
  the sprite are set, and the keys are processed again (both arms of the source's
  \<^verbatim>\<open>if\<close> call \<^verbatim>\<open>process_keychange\<close>).\<close>

definition apply_physics :: "frame_input \<Rightarrow> game \<Rightarrow> game" where
  "apply_physics inp s =
     (let p1 = (player_sprite s)
                 \<lparr>center_x := phys_center_x inp, center_y := phys_center_y inp,
                  change_x := phys_change_x inp, change_y := phys_change_y inp\<rparr>;
          p2 = p1\<lparr>can_jump := Some (\<not> phys_can_jump inp)\<rparr>;
          p3 = p2\<lparr>is_on_ladder := (phys_is_on_ladder inp \<and> \<not> phys_can_jump inp)\<rparr>
      in process_keychange
           \<lparr>q_is_on_ladder = phys_is_on_ladder inp, q_can_jump = phys_can_jump_10 inp\<rparr>
           (s\<lparr>player_sprite := p3\<rparr>))"

text \<open>The parallax background: the camera is sampled, the background layers are shifted
  on every level above 1, and the sample is kept for the next frame.\<close>

definition scroll_background :: "env \<Rightarrow> frame_input \<Rightarrow> game \<Rightarrow> error + game" where
  "scroll_background e inp s =
     (let camera_x = camera_position_x inp
      in and_then
           (if level s > 1
            then parallax (round_float e) (level s) (round_float e (camera_x - camera_x_prev s))
                   (name_mapping s) 0 (background_layer_names s) (sprite_left s)
            else Inr (sprite_left s))
           (\<lambda>st. Inr (s\<lparr>sprite_left := st, camera_x_prev := camera_x\<rparr>)))"

text \<open>\<^verbatim>\<open>scene.update_animation\<close>: on every level the listed layers include the player's,
  so the player's \<^verbatim>\<open>update_animation\<close> runs; the animation of the tiles is the
  library's.\<close>

definition animate_player :: "game \<Rightarrow> error + game" where
  "animate_player s =
     and_then (update_animation (player_sprite s)) (\<lambda>p. Inr (s\<lparr>player_sprite := p\<rparr>))"

text \<open>The coins: the collision test on the layer \<^verbatim>\<open>Coins\<close>, then the loop over the
  coins that were hit.\<close>

definition collect_coins :: "frame_input \<Rightarrow> game \<Rightarrow> error + game" where
  "collect_coins inp s =
     and_then (py_getitem (name_mapping s) LAYER_NAME_COINS)
       (\<lambda>coins. Inr (fold collect_coin (check_for_collision_with_list inp coins) s))"

definition play_frame :: "env \<Rightarrow> frame_input \<Rightarrow> game \<Rightarrow> error + game" where
  "play_frame e inp s =
     and_then (scroll_background e inp (apply_physics inp s)) (\<lambda>s2.
     and_then (animate_player s2) (\<lambda>s3.
     and_then (collect_coins inp s3) (\<lambda>s4.
       Inr (center_camera_to_player e s4))))"

definition on_update :: "env \<Rightarrow> frame_input \<Rightarrow> game \<Rightarrow> error + game" where
  "on_update e inp s =
     (if right e (player_sprite s) \<ge> end_of_map s then level_end e s else play_frame e inp s)"

subsection \<open>Sequences of events\<close>

text \<open>The window calls the handlers one at a time, each with what the physics engine
  answers at that moment. After \<^verbatim>\<open>show_view(EndView())\<close> the game view receives no
  further event.\<close>

datatype event = Key_press key phys_query | Key_release key phys_query | Update frame_input

fun step :: "env \<Rightarrow> event \<Rightarrow> game \<Rightarrow> error + game" where
  "step e (Key_press k q) s = Inr (on_key_press k q s)"
| "step e (Key_release k q) s = Inr (on_key_release k q s)"
| "step e (Update inp) s = on_update e inp s"

fun run :: "env \<Rightarrow> event list \<Rightarrow> game \<Rightarrow> error + game" where
  "run e [] s = Inr s"
| "run e (ev # evs) s =
     (if end_view_shown s then Inr s
      else (case step e ev s of Inl err \<Rightarrow> Inl err | Inr s' \<Rightarrow> run e evs s'))"

subsection \<open>Observations used in the statements\<close>

text \<open>The pose a texture shows.\<close>

fun is_walk_pose :: "texture \<Rightarrow> bool" where
  "is_walk_pose (Walk_png i, flipped) = True"
| "is_walk_pose (other, flipped) = False"

fun is_climb_pose :: "texture \<Rightarrow> bool" where
  "is_climb_pose (Climb_png i, flipped) = True"
| "is_climb_pose (other, flipped) = False"

text \<open>A sequence of \<^verbatim>\<open>update_animation\<close> calls on one player; before each call the game
  has set the velocity and the ladder flag to the given values.\<close>

fun animate :: "(rat \<times> rat \<times> bool) list \<Rightarrow> player \<Rightarrow> error + player" where
  "animate [] p = Inr p"
| "animate ((dx, dy, ladder) # rest) p =
     (case update_animation (p\<lparr>change_x := dx, change_y := dy, is_on_ladder := ladder\<rparr>) of
        Inl err \<Rightarrow> Inl err
      | Inr p' \<Rightarrow> animate rest p')"

text \<open>How often a sound has been played so far.\<close>

definition plays :: "sound_call \<Rightarrow> game \<Rightarrow> nat" where
  "plays call s = count_list (sounds s) call"

text \<open>The sprites of a layer of the scene (none when the scene has no such layer), and
  the active coins.\<close>

definition layer_sprites :: "(string \<times> nat list) list \<Rightarrow> string \<Rightarrow> nat list" where
  "layer_sprites d name = (case map_of d name of None \<Rightarrow> [] | Some l \<Rightarrow> l)"

definition coins_of :: "game \<Rightarrow> nat list" where
  "coins_of s = layer_sprites (name_mapping s) LAYER_NAME_COINS"

text \<open>The left coordinate of a sprite, and the player's facing and velocity, read off a
  game state.\<close>

definition left_of :: "nat \<Rightarrow> game \<Rightarrow> rat" where
  "left_of sprite s = sprite_left s sprite"

definition player_facing :: "game \<Rightarrow> facing" where
  "player_facing s = character_face_direction (player_sprite s)"

text \<open>The player's right edge is at or beyond the end of the map: the test of
  \<^verbatim>\<open>on_update\<close>.\<close>

definition at_end :: "env \<Rightarrow> game \<Rightarrow> bool" where
  "at_end e s = (right e (player_sprite s) \<ge> end_of_map s)"

text \<open>Kinds of events.\<close>

fun is_space_press :: "event \<Rightarrow> bool" where
  "is_space_press (Key_press k q) = (k = Key_SPACE)"
| "is_space_press ev = False"


fun is_update :: "event \<Rightarrow> bool" where
  "is_update (Update inp) = True"
| "is_update ev = False"

text \<open>The physics answers that \<^verbatim>\<open>process_keychange\<close> receives inside a frame update.\<close>

definition frame_query :: "frame_input \<Rightarrow> phys_query" where
  "frame_query inp = \<lparr>q_is_on_ladder = phys_is_on_ladder inp, q_can_jump = phys_can_jump_10 inp\<rparr>"

text \<open>The condition under which \<^verbatim>\<open>process_keychange\<close> starts a jump.\<close>

definition jump_fires :: "phys_query \<Rightarrow> game \<Rightarrow> bool" where
  "jump_fires q s =
     (\<not> level_over s \<and> up_pressed s \<and> \<not> down_pressed s \<and> \<not> q_is_on_ladder q \<and>
      q_can_jump q \<and> \<not> jump_needs_reset s)"

text \<open>The states on which \<^verbatim>\<open>on_key_press\<close> and \<^verbatim>\<open>on_key_release\<close> call
  \<^verbatim>\<open>process_keychange\<close>.\<close>

definition key_down :: "key \<Rightarrow> game \<Rightarrow> game" where
  "key_down k s =
     (if k = Key_UP \<or> k = Key_W then s\<lparr>up_pressed := True\<rparr>
      else if k = Key_DOWN \<or> k = Key_S then s\<lparr>down_pressed := True\<rparr>
      else if k = Key_LEFT \<or> k = Key_A then s\<lparr>left_pressed := True\<rparr>
      else if k = Key_RIGHT \<or> k = Key_D then s\<lparr>right_pressed := True\<rparr>
      else if k = Key_SPACE \<and> level_over s then s\<lparr>next_level := True\<rparr>
      else s)"

definition key_up :: "key \<Rightarrow> game \<Rightarrow> game" where
  "key_up k s =
     (if k = Key_UP \<or> k = Key_W then s\<lparr>up_pressed := False, jump_needs_reset := False\<rparr>
      else if k = Key_DOWN \<or> k = Key_S then s\<lparr>down_pressed := False\<rparr>
      else if k = Key_LEFT \<or> k = Key_A then s\<lparr>left_pressed := False\<rparr>
      else if k = Key_RIGHT \<or> k = Key_D then s\<lparr>right_pressed := False\<rparr>
      else s)"

text \<open>Whether the victory sound can still be played: not once the last level is over.\<close>

definition victory_armed :: "game \<Rightarrow> nat" where
  "victory_armed s = (if 4 < level s \<or> (level s = 4 \<and> level_over s) then 0 else 1)"


text \<open>An advance request that has not been served yet.\<close>

definition pending :: "game \<Rightarrow> nat" where
  "pending s = (if next_level s then 1 else 0)"

text \<open>The level is complete and its transition has not taken place yet: the end of the
  map has been seen (\<open>level_over\<close>) or an advance is requested.\<close>

definition awaiting :: "game \<Rightarrow> nat" where
  "awaiting s = (if level_over s \<or> next_level s then 1 else 0)"

text \<open>The crossings of the end of the map in a run: the frames that find the player at
  the end while \<open>level_over\<close> is not yet set.\<close>

fun crossings :: "env \<Rightarrow> event list \<Rightarrow> game \<Rightarrow> nat" where
  "crossings e [] s = 0"
| "crossings e (ev # evs) s =
     (if end_view_shown s then 0
      else (case step e ev s of
              Inl err \<Rightarrow> 0
            | Inr s' \<Rightarrow>
                (if is_update ev \<and> at_end e s \<and> \<not> level_over s then 1 else 0)
                  + crossings e evs s'))"

subsection \<open>A small game for concrete runs\<close>

text \<open>Map files for the four levels: level 1 has no background layers, the other levels
  have four (in alphabetical order \<^verbatim>\<open>Clouds\<close>, \<^verbatim>\<open>Hills\<close>, \<^verbatim>\<open>Sky\<close>, \<^verbatim>\<open>Trees\<close>).
  Sprite \<open>i\<close> starts with its left edge at \<open>100 * i\<close>. The numbers of the runs below
  are chosen so that every float operation on them is exact: the rounding of the small game
  leaves them as they are.\<close>

definition example_map :: "int \<Rightarrow> tile_map option" where
  "example_map lv =
     (if lv = 1 then
        Some \<lparr>sprite_lists =
                [(''Platforms'', [1, 2]), (''Coins'', [10, 11, 12]), (''Decorations'', [20])],
              sprite_left0 = (\<lambda>i. 100 * of_nat i)\<rparr>
      else if 2 \<le> lv \<and> lv \<le> 4 then
        Some \<lparr>sprite_lists =
                [(''Platforms'', [1]), (''Platforms_1'', [2]), (''Platforms_2'', [3]),
                 (''Coins'', [10, 11]), (''Decorations'', [20]),
                 (''Sky'', [30, 31]), (''Hills'', [32]), (''Clouds'', [33]), (''Trees'', [34])],
              sprite_left0 = (\<lambda>i. 100 * of_nat i)\<rparr>
      else None)"

definition example_env :: env where
  "example_env =
     \<lparr>load_tilemap = example_map, hit_box_right = 20,
      viewport_width = 1000, viewport_height = 650, round_float = (\<lambda>x. x)\<rparr>"

text \<open>The library's answers in a frame in which the player stands on the ground at
  \<open>x\<close>, the camera is at \<open>cam\<close>, and the listed sprites touch the player.\<close>

definition frame_at :: "rat \<Rightarrow> rat \<Rightarrow> nat list \<Rightarrow> frame_input" where
  "frame_at x cam hits =
     \<lparr>phys_center_x = x, phys_center_y = 200, phys_change_x = 0, phys_change_y = 0,
      phys_can_jump = True, phys_can_jump_10 = True, phys_is_on_ladder = False,
      camera_position_x = cam, colliding = hits\<rparr>"

definition on_ground :: phys_query where
  "on_ground = \<lparr>q_is_on_ladder = False, q_can_jump = True\<rparr>"

definition on_a_ladder :: phys_query where
  "on_a_ladder = \<lparr>q_is_on_ladder = True, q_can_jump = False\<rparr>"

text \<open>The game after the constructor and \<^verbatim>\<open>setup\<close>, and the game after a sequence of
  events from there.\<close>

definition new_game :: "error + game" where
  "new_game = GameView_setup example_env GameView_init"

definition replay :: "event list \<Rightarrow> error + game" where
  "replay evs = and_then new_game (run example_env evs)"

definition game_after :: "event list \<Rightarrow> game" where
  "game_after evs = (case replay evs of Inr s \<Rightarrow> s | Inl err \<Rightarrow> GameView_init)"

section \<open>Properties of the animation selector\<close>

subsection \<open>Auxiliary facts\<close>

lemmas texture_defs = idle_texture_pair_def jump_texture_pair_def fall_texture_pair_def
  walk_textures_def climbing_textures_def load_texture_pair_def

lemma and_then_Inr_iff: "and_then m f = Inr y \<longleftrightarrow> (\<exists>x. m = Inr x \<and> f x = Inr y)"
  by (cases m) (simp_all add: and_then_def)

lemma and_then_Inr [simp]: "and_then (Inr x) f = f x"
  by (simp add: and_then_def)

lemma and_then_Inl [simp]: "and_then (Inl e) f = Inl e"
  by (simp add: and_then_def)

lemma flip_face_fields [simp]:
  "change_x (flip_face p) = change_x p" "change_y (flip_face p) = change_y p"
  "cur_texture (flip_face p) = cur_texture p" "climbing (flip_face p) = climbing p"
  "is_on_ladder (flip_face p) = is_on_ladder p" "center_x (flip_face p) = center_x p"
  "center_y (flip_face p) = center_y p"
  by (simp_all add: flip_face_def)

lemma set_climbing_fields [simp]:
  "change_x (set_climbing p) = change_x p" "change_y (set_climbing p) = change_y p"
  "cur_texture (set_climbing p) = cur_texture p" "climbing (set_climbing p) = is_on_ladder p"
  "is_on_ladder (set_climbing p) = is_on_ladder p"
  "character_face_direction (set_climbing p) = character_face_direction p"
  "center_x (set_climbing p) = center_x p" "center_y (set_climbing p) = center_y p"
  by (auto simp add: set_climbing_def Let_def)

lemma next_frame_fields [simp]:
  "change_x (next_frame p) = change_x p" "change_y (next_frame p) = change_y p"
  "climbing (next_frame p) = climbing p"
  "is_on_ladder (next_frame p) = is_on_ladder p"
  "character_face_direction (next_frame p) = character_face_direction p"
  "center_x (next_frame p) = center_x p" "center_y (next_frame p) = center_y p"
  by (simp_all add: next_frame_def Let_def)

lemma next_frame_cur:
  "cur_texture (next_frame p) = (if cur_texture p + 1 > 7 then 0 else cur_texture p + 1)"
  by (simp add: next_frame_def Let_def)

lemma next_frame_mod:
  "0 \<le> cur_texture p \<Longrightarrow> cur_texture p \<le> 7 \<Longrightarrow> cur_texture (next_frame p) = (cur_texture p + 1) mod 8"
  by (simp add: next_frame_cur)

lemma py_index_climbing:
  "0 \<le> c \<Longrightarrow> c \<le> 7 \<Longrightarrow> py_index climbing_textures (c div 4) = Inr (Climb_png (nat (c div 4)), False)"
proof -
  assume "0 \<le> c" "c \<le> 7"
  then have "c div 4 = 0 \<or> c div 4 = 1" by presburger
  then show ?thesis by (auto simp add: py_index_def climbing_textures_def)
qed

lemma py_index_walk:
  "0 \<le> c \<Longrightarrow> c \<le> 7 \<Longrightarrow>
     py_index walk_textures c = Inr [(Walk_png (nat c), False), (Walk_png (nat c), True)]"
proof -
  assume "0 \<le> c" "c \<le> 7"
  then have "nat c < 8" by simp
  then have "[0..<8] ! nat c = nat c" by simp
  with \<open>0 \<le> c\<close> \<open>c \<le> 7\<close> show ?thesis
    by (simp add: py_index_def walk_textures_def load_texture_pair_def)
qed


lemma py_index_climbing_mod:
  "py_index climbing_textures (c mod 8 div 4) = Inr (Climb_png (nat (c mod 8 div 4)), False)"
proof (rule py_index_climbing)
  show "0 \<le> c mod 8" by simp
  have "c mod 8 < 8" by simp
  then show "c mod 8 \<le> 7" by linarith
qed

lemma py_index_walk_mod:
  "py_index walk_textures (c mod 8) =
     Inr [(Walk_png (nat (c mod 8)), False), (Walk_png (nat (c mod 8)), True)]"
proof (rule py_index_walk)
  show "0 \<le> c mod 8" by simp
  have "c mod 8 < 8" by simp
  then show "c mod 8 \<le> 7" by linarith
qed

lemma mod8_le7: "(c::int) mod 8 \<le> 7"
proof -
  have "c mod 8 < 8" by simp
  then show ?thesis by linarith
qed

lemma update_animation_face:
  "update_animation p = Inr p' \<Longrightarrow>
     character_face_direction p' = character_face_direction (flip_face p)"
  by (auto simp add: update_animation_def Let_def and_then_Inr_iff split: if_splits)

lemma update_animation_result:
  assumes "0 \<le> cur_texture p" "cur_texture p \<le> 7"
  shows "\<exists>p'. update_animation p = Inr p' \<and>
           climbing p' = is_on_ladder p \<and>
           is_climb_pose (texture p') = is_on_ladder p \<and>
           is_walk_pose (texture p') =
              (\<not> is_on_ladder p \<and> change_y p = 0 \<and> change_x p \<noteq> 0) \<and>
           cur_texture p' =
              (if (is_on_ladder p \<and> \<bar>change_y p\<bar> > 1)
                  \<or> (\<not> is_on_ladder p \<and> change_y p = 0 \<and> change_x p \<noteq> 0)
               then (cur_texture p + 1) mod 8 else cur_texture p) \<and>
           0 \<le> cur_texture p' \<and> cur_texture p' \<le> 7 \<and>
           center_x p' = center_x p \<and> center_y p' = center_y p \<and>
           change_x p' = change_x p \<and> change_y p' = change_y p"
proof (cases "is_on_ladder p")
  case True
  show ?thesis
  proof (cases "\<bar>change_y p\<bar> > 1")
    case adv: True
    show ?thesis using True adv assms
      by (simp add: update_animation_def Let_def py_index_climbing_mod next_frame_mod mod8_le7)
  next
    case noadv: False
    show ?thesis using True noadv assms
      by (simp add: update_animation_def Let_def py_index_climbing)
  qed
next
  case False
  show ?thesis
  proof (cases "change_y p = 0 \<and> change_x p \<noteq> 0")
    case walk: True
    show ?thesis using False walk assms
      by (cases "character_face_direction (flip_face p)")
         (simp_all add: update_animation_def Let_def py_index_walk_mod next_frame_mod mod8_le7)
  next
    case nowalk: False
    show ?thesis using False nowalk assms
      by (cases "character_face_direction (flip_face p)")
         (auto simp add: update_animation_def Let_def texture_defs)
  qed
qed


lemma animate_in_range:
  "0 \<le> cur_texture p \<Longrightarrow> cur_texture p \<le> 7 \<Longrightarrow>
     \<exists>p'. animate steps p = Inr p' \<and> 0 \<le> cur_texture p' \<and> cur_texture p' \<le> 7"
proof (induction steps arbitrary: p)
  case Nil
  then show ?case by simp
next
  case (Cons a steps)
  obtain dx dy ladder where a: "a = (dx, dy, ladder)" by (cases a)
  let ?q = "p\<lparr>change_x := dx, change_y := dy, is_on_ladder := ladder\<rparr>"
  have "0 \<le> cur_texture ?q" "cur_texture ?q \<le> 7" using Cons.prems by simp_all
  from update_animation_result [OF this]
  obtain p1 where p1: "update_animation ?q = Inr p1" "0 \<le> cur_texture p1" "cur_texture p1 \<le> 7"
    by blast
  from Cons.IH [OF p1(2) p1(3)] show ?case using a p1(1) by simp
qed

subsection \<open>The frame counter\<close>

text \<open>
  Claim C3. Started at \<open>cur_texture = 0\<close>, any sequence of \<^verbatim>\<open>update_animation\<close> calls
  runs without an error and leaves the frame counter in \<open>[0, 7]\<close>; as the sequence is
  arbitrary, this holds after every call. One call advances the counter, by 1 modulo 8,
  exactly when \<open>dx \<noteq> 0\<close> and the walking pose is selected, or when the climbing flag
  is set and \<open>|dy| > 1\<close>; in every other case the counter is unchanged.
\<close>

theorem frame_counter_in_range:
  "(cur_texture p = 0 \<longrightarrow>
      (\<exists>p'. animate steps p = Inr p' \<and> 0 \<le> cur_texture p' \<and> cur_texture p' \<le> 7)) \<and>
   (0 \<le> cur_texture p \<and> cur_texture p \<le> 7 \<longrightarrow>
      (\<exists>p'. update_animation p = Inr p' \<and> 0 \<le> cur_texture p' \<and> cur_texture p' \<le> 7 \<and>
         cur_texture p' =
           (if (change_x p \<noteq> 0 \<and> is_walk_pose (texture p')) \<or> (climbing p' \<and> \<bar>change_y p\<bar> > 1)
            then (cur_texture p + 1) mod 8 else cur_texture p)))"
proof (intro conjI impI)
  assume "cur_texture p = 0"
  then show "\<exists>p'. animate steps p = Inr p' \<and> 0 \<le> cur_texture p' \<and> cur_texture p' \<le> 7"
    using animate_in_range [of p steps] by simp
next
  assume "0 \<le> cur_texture p \<and> cur_texture p \<le> 7"
  then have "0 \<le> cur_texture p" "cur_texture p \<le> 7" by simp_all
  from update_animation_result [OF this]
  obtain p' where p': "update_animation p = Inr p'"
      "climbing p' = is_on_ladder p"
      "is_walk_pose (texture p') = (\<not> is_on_ladder p \<and> change_y p = 0 \<and> change_x p \<noteq> 0)"
      "cur_texture p' =
              (if (is_on_ladder p \<and> \<bar>change_y p\<bar> > 1)
                  \<or> (\<not> is_on_ladder p \<and> change_y p = 0 \<and> change_x p \<noteq> 0)
               then (cur_texture p + 1) mod 8 else cur_texture p)"
      "0 \<le> cur_texture p'" "cur_texture p' \<le> 7"
    by blast
  show "\<exists>p'. update_animation p = Inr p' \<and> 0 \<le> cur_texture p' \<and> cur_texture p' \<le> 7 \<and>
         cur_texture p' =
           (if (change_x p \<noteq> 0 \<and> is_walk_pose (texture p')) \<or> (climbing p' \<and> \<bar>change_y p\<bar> > 1)
            then (cur_texture p + 1) mod 8 else cur_texture p)"
  proof (intro exI conjI)
    show "update_animation p = Inr p'" by (rule p'(1))
    show "0 \<le> cur_texture p'" by (rule p'(5))
    show "cur_texture p' \<le> 7" by (rule p'(6))
    show "cur_texture p' =
           (if (change_x p \<noteq> 0 \<and> is_walk_pose (texture p')) \<or> (climbing p' \<and> \<bar>change_y p\<bar> > 1)
            then (cur_texture p + 1) mod 8 else cur_texture p)"
      using p'(2,3,4) by auto
  qed
qed

theorem frame_counter_in_range_witness:
  "cur_texture PlayerCharacter_init = 0 \<and>
   map_sum id cur_texture
     (animate [(7, 0, False), (7, 0, False), (0, 2, True)] PlayerCharacter_init) = Inr 3 \<and>
   map_sum id cur_texture
     (update_animation (PlayerCharacter_init\<lparr>cur_texture := 7, change_x := 7\<rparr>)) = Inr 0"
proof -
  have a: "map_sum id cur_texture
     (animate [(7, 0, False), (7, 0, False), (0, 2, True)] PlayerCharacter_init) = Inr 3"
    by code_simp
  have b: "map_sum id cur_texture
     (update_animation (PlayerCharacter_init\<lparr>cur_texture := 7, change_x := 7\<rparr>)) = Inr 0"
    by code_simp
  have c: "cur_texture PlayerCharacter_init = 0"
    by (simp add: PlayerCharacter_init_def)
  from frame_counter_in_range
         [of PlayerCharacter_init "[(7, 0, False), (7, 0, False), (0, 2, True)]"] a b c
  show ?thesis by simp
qed

subsection \<open>The facing direction\<close>

text \<open>
  Claim C9. A call of \<^verbatim>\<open>update_animation\<close> turns the facing to left only when
  \<open>dx < 0\<close> and the player faces right, to right only when \<open>dx > 0\<close> and the player
  faces left, and leaves it unchanged in every other case; in particular it is unchanged
  while \<open>dx = 0\<close>.
\<close>

theorem facing_sticky:
  "update_animation p = Inr p' \<Longrightarrow>
     character_face_direction p' =
       (if change_x p < 0 \<and> character_face_direction p = RIGHT_FACING then LEFT_FACING
        else if change_x p > 0 \<and> character_face_direction p = LEFT_FACING then RIGHT_FACING
        else character_face_direction p)"
  by (drule update_animation_face) (simp add: flip_face_def)

theorem facing_sticky_witness:
  "map_sum id character_face_direction
     (update_animation (PlayerCharacter_init\<lparr>change_x := - 7\<rparr>)) = Inr LEFT_FACING \<and>
   map_sum id character_face_direction
     (update_animation (PlayerCharacter_init\<lparr>character_face_direction := LEFT_FACING\<rparr>))
     = Inr LEFT_FACING"
proof -
  have a: "update_animation (PlayerCharacter_init\<lparr>change_x := - 7\<rparr>) =
      Inr (PlayerCharacter_init\<lparr>change_x := - 7, character_face_direction := LEFT_FACING,
             cur_texture := 1, texture := (Walk_png 1, True)\<rparr>)"
    by code_simp
  have b: "update_animation (PlayerCharacter_init\<lparr>character_face_direction := LEFT_FACING\<rparr>) =
      Inr (PlayerCharacter_init\<lparr>character_face_direction := LEFT_FACING,
             texture := (Idle_png, True)\<rparr>)"
    by code_simp
  from facing_sticky [OF a] facing_sticky [OF b] show ?thesis
    by (simp add: a b)
qed

subsection \<open>The climbing flag\<close>

text \<open>
  Claim C7, as the code has it. The two statements that maintain the climbing flag run
  one after the other in the same call, so after every call the flag equals the ladder
  flag of that call, and the pose is a climbing frame exactly when the player is on the
  ladder in that call: the flag is cleared in the very call in which \<^verbatim>\<open>is_on_ladder\<close>
  is first false, with no lag.
\<close>

theorem climbing_is_on_ladder:
  "0 \<le> cur_texture p \<Longrightarrow> cur_texture p \<le> 7 \<Longrightarrow>
     \<exists>p'. update_animation p = Inr p' \<and> climbing p' = is_on_ladder p \<and>
          is_climb_pose (texture p') = is_on_ladder p"
  using update_animation_result [of p] by blast

theorem climbing_is_on_ladder_witness:
  "0 \<le> cur_texture (PlayerCharacter_init\<lparr>climbing := True\<rparr>) \<and>
   cur_texture (PlayerCharacter_init\<lparr>climbing := True\<rparr>) \<le> 7 \<and>
   map_sum id climbing (update_animation (PlayerCharacter_init\<lparr>climbing := True\<rparr>)) = Inr False"
proof -
  have a: "0 \<le> cur_texture (PlayerCharacter_init\<lparr>climbing := True\<rparr>)"
    and b: "cur_texture (PlayerCharacter_init\<lparr>climbing := True\<rparr>) \<le> 7"
    by (simp_all add: PlayerCharacter_init_def)
  from climbing_is_on_ladder [OF a b] a b show ?thesis
    by (auto simp add: PlayerCharacter_init_def)
qed

text \<open>
  The claim as stated asks for a lag of one call. It fails on two calls from a new
  player, the first on a ladder and the second off it: the flag is already clear after
  the second call, and that call selects the idle pose, not a climbing frame.
\<close>

theorem climbing_lag_counterexample:
  "map_sum id climbing (animate [(0, 0, True)] PlayerCharacter_init) = Inr True \<and>
   map_sum id climbing (animate [(0, 0, True), (0, 0, False)] PlayerCharacter_init) = Inr False \<and>
   map_sum id texture (animate [(0, 0, True), (0, 0, False)] PlayerCharacter_init)
     = Inr (Idle_png, False)"
  by code_simp

section \<open>Auxiliary facts about the game view\<close>

lemma set_change_x_fields [simp]:
  "left_pressed (set_change_x v s) = left_pressed s"
  "right_pressed (set_change_x v s) = right_pressed s"
  "up_pressed (set_change_x v s) = up_pressed s"
  "down_pressed (set_change_x v s) = down_pressed s"
  "jump_needs_reset (set_change_x v s) = jump_needs_reset s"
  "name_mapping (set_change_x v s) = name_mapping s"
  "sprite_left (set_change_x v s) = sprite_left s"
  "end_of_map (set_change_x v s) = end_of_map s"
  "score (set_change_x v s) = score s"
  "level (set_change_x v s) = level s"
  "max_level (set_change_x v s) = max_level s"
  "level_over (set_change_x v s) = level_over s"
  "next_level (set_change_x v s) = next_level s"
  "camera_x_prev (set_change_x v s) = camera_x_prev s"
  "camera_goal (set_change_x v s) = camera_goal s"
  "background_layer_names (set_change_x v s) = background_layer_names s"
  "sounds (set_change_x v s) = sounds s"
  "end_view_shown (set_change_x v s) = end_view_shown s"
  "center_x (player_sprite (set_change_x v s)) = center_x (player_sprite s)"
  "center_y (player_sprite (set_change_x v s)) = center_y (player_sprite s)"
  "change_y (player_sprite (set_change_x v s)) = change_y (player_sprite s)"
  "character_face_direction (player_sprite (set_change_x v s)) = character_face_direction (player_sprite s)"
  "cur_texture (player_sprite (set_change_x v s)) = cur_texture (player_sprite s)"
  "jumping (player_sprite (set_change_x v s)) = jumping (player_sprite s)"
  "climbing (player_sprite (set_change_x v s)) = climbing (player_sprite s)"
  "is_on_ladder (player_sprite (set_change_x v s)) = is_on_ladder (player_sprite s)"
  "can_jump (player_sprite (set_change_x v s)) = can_jump (player_sprite s)"
  "texture (player_sprite (set_change_x v s)) = texture (player_sprite s)"
  "change_x (player_sprite (set_change_x v s)) = v"
  by (simp_all add: set_change_x_def)

lemma set_change_y_fields [simp]:
  "left_pressed (set_change_y v s) = left_pressed s"
  "right_pressed (set_change_y v s) = right_pressed s"
  "up_pressed (set_change_y v s) = up_pressed s"
  "down_pressed (set_change_y v s) = down_pressed s"
  "jump_needs_reset (set_change_y v s) = jump_needs_reset s"
  "name_mapping (set_change_y v s) = name_mapping s"
  "sprite_left (set_change_y v s) = sprite_left s"
  "end_of_map (set_change_y v s) = end_of_map s"
  "score (set_change_y v s) = score s"
  "level (set_change_y v s) = level s"
  "max_level (set_change_y v s) = max_level s"
  "level_over (set_change_y v s) = level_over s"
  "next_level (set_change_y v s) = next_level s"
  "camera_x_prev (set_change_y v s) = camera_x_prev s"
  "camera_goal (set_change_y v s) = camera_goal s"
  "background_layer_names (set_change_y v s) = background_layer_names s"
  "sounds (set_change_y v s) = sounds s"
  "end_view_shown (set_change_y v s) = end_view_shown s"
  "center_x (player_sprite (set_change_y v s)) = center_x (player_sprite s)"
  "center_y (player_sprite (set_change_y v s)) = center_y (player_sprite s)"
  "change_x (player_sprite (set_change_y v s)) = change_x (player_sprite s)"
  "character_face_direction (player_sprite (set_change_y v s)) = character_face_direction (player_sprite s)"
  "cur_texture (player_sprite (set_change_y v s)) = cur_texture (player_sprite s)"
  "jumping (player_sprite (set_change_y v s)) = jumping (player_sprite s)"
  "climbing (player_sprite (set_change_y v s)) = climbing (player_sprite s)"
  "is_on_ladder (player_sprite (set_change_y v s)) = is_on_ladder (player_sprite s)"
  "can_jump (player_sprite (set_change_y v s)) = can_jump (player_sprite s)"
  "texture (player_sprite (set_change_y v s)) = texture (player_sprite s)"
  "change_y (player_sprite (set_change_y v s)) = v"
  by (simp_all add: set_change_y_def)

lemma process_up_down_fields [simp]:
  "left_pressed (process_up_down q s) = left_pressed s"
  "right_pressed (process_up_down q s) = right_pressed s"
  "up_pressed (process_up_down q s) = up_pressed s"
  "down_pressed (process_up_down q s) = down_pressed s"
  "name_mapping (process_up_down q s) = name_mapping s"
  "sprite_left (process_up_down q s) = sprite_left s"
  "end_of_map (process_up_down q s) = end_of_map s"
  "score (process_up_down q s) = score s"
  "level (process_up_down q s) = level s"
  "max_level (process_up_down q s) = max_level s"
  "level_over (process_up_down q s) = level_over s"
  "next_level (process_up_down q s) = next_level s"
  "camera_x_prev (process_up_down q s) = camera_x_prev s"
  "camera_goal (process_up_down q s) = camera_goal s"
  "background_layer_names (process_up_down q s) = background_layer_names s"
  "end_view_shown (process_up_down q s) = end_view_shown s"
  "center_x (player_sprite (process_up_down q s)) = center_x (player_sprite s)"
  "center_y (player_sprite (process_up_down q s)) = center_y (player_sprite s)"
  "change_x (player_sprite (process_up_down q s)) = change_x (player_sprite s)"
  "character_face_direction (player_sprite (process_up_down q s)) = character_face_direction (player_sprite s)"
  "cur_texture (player_sprite (process_up_down q s)) = cur_texture (player_sprite s)"
  "jumping (player_sprite (process_up_down q s)) = jumping (player_sprite s)"
  "climbing (player_sprite (process_up_down q s)) = climbing (player_sprite s)"
  "is_on_ladder (player_sprite (process_up_down q s)) = is_on_ladder (player_sprite s)"
  "can_jump (player_sprite (process_up_down q s)) = can_jump (player_sprite s)"
  "texture (player_sprite (process_up_down q s)) = texture (player_sprite s)"
  by (simp_all add: process_up_down_def)

lemma process_ladder_rest_fields [simp]:
  "left_pressed (process_ladder_rest q s) = left_pressed s"
  "right_pressed (process_ladder_rest q s) = right_pressed s"
  "up_pressed (process_ladder_rest q s) = up_pressed s"
  "down_pressed (process_ladder_rest q s) = down_pressed s"
  "jump_needs_reset (process_ladder_rest q s) = jump_needs_reset s"
  "name_mapping (process_ladder_rest q s) = name_mapping s"
  "sprite_left (process_ladder_rest q s) = sprite_left s"
  "end_of_map (process_ladder_rest q s) = end_of_map s"
  "score (process_ladder_rest q s) = score s"
  "level (process_ladder_rest q s) = level s"
  "max_level (process_ladder_rest q s) = max_level s"
  "level_over (process_ladder_rest q s) = level_over s"
  "next_level (process_ladder_rest q s) = next_level s"
  "camera_x_prev (process_ladder_rest q s) = camera_x_prev s"
  "camera_goal (process_ladder_rest q s) = camera_goal s"
  "background_layer_names (process_ladder_rest q s) = background_layer_names s"
  "sounds (process_ladder_rest q s) = sounds s"
  "end_view_shown (process_ladder_rest q s) = end_view_shown s"
  "center_x (player_sprite (process_ladder_rest q s)) = center_x (player_sprite s)"
  "center_y (player_sprite (process_ladder_rest q s)) = center_y (player_sprite s)"
  "change_x (player_sprite (process_ladder_rest q s)) = change_x (player_sprite s)"
  "character_face_direction (player_sprite (process_ladder_rest q s)) = character_face_direction (player_sprite s)"
  "cur_texture (player_sprite (process_ladder_rest q s)) = cur_texture (player_sprite s)"
  "jumping (player_sprite (process_ladder_rest q s)) = jumping (player_sprite s)"
  "climbing (player_sprite (process_ladder_rest q s)) = climbing (player_sprite s)"
  "is_on_ladder (player_sprite (process_ladder_rest q s)) = is_on_ladder (player_sprite s)"
  "can_jump (player_sprite (process_ladder_rest q s)) = can_jump (player_sprite s)"
  "texture (player_sprite (process_ladder_rest q s)) = texture (player_sprite s)"
  by (simp_all add: process_ladder_rest_def)

lemma process_left_right_fields [simp]:
  "left_pressed (process_left_right s) = left_pressed s"
  "right_pressed (process_left_right s) = right_pressed s"
  "up_pressed (process_left_right s) = up_pressed s"
  "down_pressed (process_left_right s) = down_pressed s"
  "jump_needs_reset (process_left_right s) = jump_needs_reset s"
  "name_mapping (process_left_right s) = name_mapping s"
  "sprite_left (process_left_right s) = sprite_left s"
  "end_of_map (process_left_right s) = end_of_map s"
  "score (process_left_right s) = score s"
  "level (process_left_right s) = level s"
  "max_level (process_left_right s) = max_level s"
  "level_over (process_left_right s) = level_over s"
  "next_level (process_left_right s) = next_level s"
  "camera_x_prev (process_left_right s) = camera_x_prev s"
  "camera_goal (process_left_right s) = camera_goal s"
  "background_layer_names (process_left_right s) = background_layer_names s"
  "sounds (process_left_right s) = sounds s"
  "end_view_shown (process_left_right s) = end_view_shown s"
  "center_x (player_sprite (process_left_right s)) = center_x (player_sprite s)"
  "center_y (player_sprite (process_left_right s)) = center_y (player_sprite s)"
  "change_y (player_sprite (process_left_right s)) = change_y (player_sprite s)"
  "character_face_direction (player_sprite (process_left_right s)) = character_face_direction (player_sprite s)"
  "cur_texture (player_sprite (process_left_right s)) = cur_texture (player_sprite s)"
  "jumping (player_sprite (process_left_right s)) = jumping (player_sprite s)"
  "climbing (player_sprite (process_left_right s)) = climbing (player_sprite s)"
  "is_on_ladder (player_sprite (process_left_right s)) = is_on_ladder (player_sprite s)"
  "can_jump (player_sprite (process_left_right s)) = can_jump (player_sprite s)"
  "texture (player_sprite (process_left_right s)) = texture (player_sprite s)"
  by (simp_all add: process_left_right_def)

lemma process_keychange_fields [simp]:
  "left_pressed (process_keychange q s) = left_pressed s"
  "right_pressed (process_keychange q s) = right_pressed s"
  "up_pressed (process_keychange q s) = up_pressed s"
  "down_pressed (process_keychange q s) = down_pressed s"
  "name_mapping (process_keychange q s) = name_mapping s"
  "sprite_left (process_keychange q s) = sprite_left s"
  "end_of_map (process_keychange q s) = end_of_map s"
  "score (process_keychange q s) = score s"
  "level (process_keychange q s) = level s"
  "max_level (process_keychange q s) = max_level s"
  "level_over (process_keychange q s) = level_over s"
  "next_level (process_keychange q s) = next_level s"
  "camera_x_prev (process_keychange q s) = camera_x_prev s"
  "camera_goal (process_keychange q s) = camera_goal s"
  "background_layer_names (process_keychange q s) = background_layer_names s"
  "end_view_shown (process_keychange q s) = end_view_shown s"
  "center_x (player_sprite (process_keychange q s)) = center_x (player_sprite s)"
  "center_y (player_sprite (process_keychange q s)) = center_y (player_sprite s)"
  "character_face_direction (player_sprite (process_keychange q s)) = character_face_direction (player_sprite s)"
  "cur_texture (player_sprite (process_keychange q s)) = cur_texture (player_sprite s)"
  "jumping (player_sprite (process_keychange q s)) = jumping (player_sprite s)"
  "climbing (player_sprite (process_keychange q s)) = climbing (player_sprite s)"
  "is_on_ladder (player_sprite (process_keychange q s)) = is_on_ladder (player_sprite s)"
  "can_jump (player_sprite (process_keychange q s)) = can_jump (player_sprite s)"
  "texture (player_sprite (process_keychange q s)) = texture (player_sprite s)"
  by (simp_all add: process_keychange_def)

lemma process_keychange_sounds:
  "sounds (process_keychange q s) = (if jump_fires q s then sounds s @ [Play_jump] else sounds s)"
  by (simp add: process_keychange_def process_left_right_def process_ladder_rest_def
      process_up_down_def jump_fires_def)

lemma process_keychange_reset:
  "jump_needs_reset (process_keychange q s) = (jump_needs_reset s \<or> jump_fires q s)"
  by (auto simp add: process_keychange_def process_left_right_def process_ladder_rest_def
      process_up_down_def jump_fires_def)

lemma process_keychange_change_x:
  "\<not> level_over s \<Longrightarrow> change_x (player_sprite (process_keychange q s)) =
     (if right_pressed s \<and> \<not> left_pressed s then PLAYER_MOVEMENT_SPEED
      else if left_pressed s \<and> \<not> right_pressed s then - PLAYER_MOVEMENT_SPEED
      else 0)"
  by (simp add: process_keychange_def process_left_right_def)

lemma process_up_down_change_y:
  "change_y (player_sprite (process_up_down q s)) =
     (if up_pressed s \<and> \<not> down_pressed s then
        (if q_is_on_ladder q then PLAYER_MOVEMENT_SPEED
         else if q_can_jump q \<and> \<not> jump_needs_reset s then PLAYER_JUMP_SPEED
         else change_y (player_sprite s))
      else if down_pressed s \<and> \<not> up_pressed s \<and> q_is_on_ladder q then - PLAYER_MOVEMENT_SPEED
      else change_y (player_sprite s))"
  by (simp add: process_up_down_def)

lemma process_ladder_rest_change_y:
  "change_y (player_sprite (process_ladder_rest q s)) =
     (if q_is_on_ladder q \<and> (up_pressed s = down_pressed s) then 0
      else change_y (player_sprite s))"
  by (auto simp add: process_ladder_rest_def)

lemma process_keychange_change_y:
  "\<not> level_over s \<Longrightarrow> change_y (player_sprite (process_keychange q s)) =
     (if q_is_on_ladder q then
        (if up_pressed s \<and> \<not> down_pressed s then PLAYER_MOVEMENT_SPEED
         else if down_pressed s \<and> \<not> up_pressed s then - PLAYER_MOVEMENT_SPEED
         else 0)
      else if jump_fires q s then PLAYER_JUMP_SPEED
      else change_y (player_sprite s))"
  by (auto simp add: process_keychange_def process_left_right_def process_ladder_rest_change_y
      process_up_down_change_y jump_fires_def)

lemma process_keychange_level_over: "level_over s \<Longrightarrow> process_keychange q s = s"
  by (simp add: process_keychange_def)

lemma center_camera_to_player_fields [simp]:
  "left_pressed (center_camera_to_player e s) = left_pressed s"
  "right_pressed (center_camera_to_player e s) = right_pressed s"
  "up_pressed (center_camera_to_player e s) = up_pressed s"
  "down_pressed (center_camera_to_player e s) = down_pressed s"
  "jump_needs_reset (center_camera_to_player e s) = jump_needs_reset s"
  "name_mapping (center_camera_to_player e s) = name_mapping s"
  "sprite_left (center_camera_to_player e s) = sprite_left s"
  "player_sprite (center_camera_to_player e s) = player_sprite s"
  "end_of_map (center_camera_to_player e s) = end_of_map s"
  "score (center_camera_to_player e s) = score s"
  "level (center_camera_to_player e s) = level s"
  "max_level (center_camera_to_player e s) = max_level s"
  "level_over (center_camera_to_player e s) = level_over s"
  "next_level (center_camera_to_player e s) = next_level s"
  "camera_x_prev (center_camera_to_player e s) = camera_x_prev s"
  "background_layer_names (center_camera_to_player e s) = background_layer_names s"
  "sounds (center_camera_to_player e s) = sounds s"
  "end_view_shown (center_camera_to_player e s) = end_view_shown s"
  by (simp_all add: center_camera_to_player_def Let_def)

lemma collect_coin_fields [simp]:
  "left_pressed (collect_coin c s) = left_pressed s"
  "right_pressed (collect_coin c s) = right_pressed s"
  "up_pressed (collect_coin c s) = up_pressed s"
  "down_pressed (collect_coin c s) = down_pressed s"
  "jump_needs_reset (collect_coin c s) = jump_needs_reset s"
  "sprite_left (collect_coin c s) = sprite_left s"
  "player_sprite (collect_coin c s) = player_sprite s"
  "end_of_map (collect_coin c s) = end_of_map s"
  "level (collect_coin c s) = level s"
  "max_level (collect_coin c s) = max_level s"
  "level_over (collect_coin c s) = level_over s"
  "next_level (collect_coin c s) = next_level s"
  "camera_x_prev (collect_coin c s) = camera_x_prev s"
  "camera_goal (collect_coin c s) = camera_goal s"
  "background_layer_names (collect_coin c s) = background_layer_names s"
  "end_view_shown (collect_coin c s) = end_view_shown s"
  by (simp_all add: collect_coin_def)

lemma fold_collect_coin_fields [simp]:
  "left_pressed (fold collect_coin hits s) = left_pressed s"
  "right_pressed (fold collect_coin hits s) = right_pressed s"
  "up_pressed (fold collect_coin hits s) = up_pressed s"
  "down_pressed (fold collect_coin hits s) = down_pressed s"
  "jump_needs_reset (fold collect_coin hits s) = jump_needs_reset s"
  "sprite_left (fold collect_coin hits s) = sprite_left s"
  "player_sprite (fold collect_coin hits s) = player_sprite s"
  "end_of_map (fold collect_coin hits s) = end_of_map s"
  "level (fold collect_coin hits s) = level s"
  "max_level (fold collect_coin hits s) = max_level s"
  "level_over (fold collect_coin hits s) = level_over s"
  "next_level (fold collect_coin hits s) = next_level s"
  "camera_x_prev (fold collect_coin hits s) = camera_x_prev s"
  "camera_goal (fold collect_coin hits s) = camera_goal s"
  "background_layer_names (fold collect_coin hits s) = background_layer_names s"
  "end_view_shown (fold collect_coin hits s) = end_view_shown s"
  by (induction hits arbitrary: s; simp)+

lemma fold_collect_coin_score:
  "score (fold collect_coin hits s) = score s + 10 * int (length hits)"
  by (induction hits arbitrary: s) (simp_all add: collect_coin_def)

lemma fold_collect_coin_sounds:
  "sounds (fold collect_coin hits s) = sounds s @ replicate (length hits) Play_coin"
  by (induction hits arbitrary: s) (simp_all add: collect_coin_def replicate_app_Cons_same)

lemma collect_coin_layers:
  "name_mapping (collect_coin c s) = map (\<lambda>(n, l). (n, removeAll c l)) (name_mapping s)"
  by (simp add: collect_coin_def)

lemma fold_collect_coin_layers:
  "name_mapping (fold collect_coin hits s) =
     map (\<lambda>(n, l). (n, filter (\<lambda>c. c \<notin> set hits) l)) (name_mapping s)"
proof (induction hits arbitrary: s)
  case Nil
  show ?case by (simp add: case_prod_unfold)
next
  case (Cons c hits)
  have f: "filter (\<lambda>x. x \<notin> set hits) (removeAll c l) = filter (\<lambda>x. x \<noteq> c \<and> x \<notin> set hits) l" for l
    by (induction l) auto
  have "name_mapping (fold collect_coin (c # hits) s) =
      map (\<lambda>(n, l). (n, filter (\<lambda>c. c \<notin> set hits) l)) (name_mapping (collect_coin c s))"
    by (simp add: Cons.IH)
  also have "\<dots> = map (\<lambda>(n, l). (n, filter (\<lambda>x. x \<notin> set (c # hits)) l)) (name_mapping s)"
    by (simp add: collect_coin_layers case_prod_unfold comp_def f)
  finally show ?case .
qed

lemma jump_fires_player [simp]: "jump_fires q (s\<lparr>player_sprite := p\<rparr>) = jump_fires q s"
  by (simp add: jump_fires_def)

lemma apply_physics_fields [simp]:
  "left_pressed (apply_physics inp s) = left_pressed s"
  "right_pressed (apply_physics inp s) = right_pressed s"
  "up_pressed (apply_physics inp s) = up_pressed s"
  "down_pressed (apply_physics inp s) = down_pressed s"
  "name_mapping (apply_physics inp s) = name_mapping s"
  "sprite_left (apply_physics inp s) = sprite_left s"
  "end_of_map (apply_physics inp s) = end_of_map s"
  "score (apply_physics inp s) = score s"
  "level (apply_physics inp s) = level s"
  "max_level (apply_physics inp s) = max_level s"
  "level_over (apply_physics inp s) = level_over s"
  "next_level (apply_physics inp s) = next_level s"
  "camera_x_prev (apply_physics inp s) = camera_x_prev s"
  "camera_goal (apply_physics inp s) = camera_goal s"
  "background_layer_names (apply_physics inp s) = background_layer_names s"
  "end_view_shown (apply_physics inp s) = end_view_shown s"
  "character_face_direction (player_sprite (apply_physics inp s)) = character_face_direction (player_sprite s)"
  "cur_texture (player_sprite (apply_physics inp s)) = cur_texture (player_sprite s)"
  "jumping (player_sprite (apply_physics inp s)) = jumping (player_sprite s)"
  "climbing (player_sprite (apply_physics inp s)) = climbing (player_sprite s)"
  "texture (player_sprite (apply_physics inp s)) = texture (player_sprite s)"
  "center_x (player_sprite (apply_physics inp s)) = phys_center_x inp"
  "center_y (player_sprite (apply_physics inp s)) = phys_center_y inp"
  by (simp_all add: apply_physics_def Let_def)

lemma apply_physics_sounds:
  "sounds (apply_physics inp s) =
     (if jump_fires (frame_query inp) s then sounds s @ [Play_jump] else sounds s)"
  by (simp add: apply_physics_def Let_def process_keychange_sounds frame_query_def)

lemma apply_physics_reset:
  "jump_needs_reset (apply_physics inp s) = (jump_needs_reset s \<or> jump_fires (frame_query inp) s)"
  by (simp add: apply_physics_def Let_def process_keychange_reset frame_query_def)

lemma scroll_background_Inr:
  assumes "scroll_background e inp s = Inr s'"
  shows "\<exists>st. s' = s\<lparr>sprite_left := st, camera_x_prev := camera_position_x inp\<rparr> \<and>
           (if level s > 1
            then parallax (round_float e) (level s)
                   (round_float e (camera_position_x inp - camera_x_prev s)) (name_mapping s) 0
                   (background_layer_names s) (sprite_left s) = Inr st
            else st = sprite_left s)"
  using assms by (auto simp add: scroll_background_def Let_def and_then_Inr_iff split: if_splits)

lemma animate_player_Inr:
  assumes "animate_player s = Inr s'"
  shows "\<exists>p. update_animation (player_sprite s) = Inr p \<and> s' = s\<lparr>player_sprite := p\<rparr>"
  using assms by (auto simp add: animate_player_def and_then_Inr_iff)

lemma collect_coins_Inr:
  assumes "collect_coins inp s = Inr s'"
  shows "\<exists>coins. py_getitem (name_mapping s) LAYER_NAME_COINS = Inr coins \<and>
           s' = fold collect_coin (check_for_collision_with_list inp coins) s"
  using assms by (auto simp add: collect_coins_def and_then_Inr_iff)

lemma play_frame_Inr:
  assumes "play_frame e inp s = Inr s'"
  obtains st p coins where
    "if level s > 1
     then parallax (round_float e) (level s)
                   (round_float e (camera_position_x inp - camera_x_prev s)) (name_mapping s) 0
            (background_layer_names s) (sprite_left s) = Inr st
     else st = sprite_left s"
    "update_animation (player_sprite (apply_physics inp s)) = Inr p"
    "py_getitem (name_mapping s) LAYER_NAME_COINS = Inr coins"
    "s' = center_camera_to_player e
            (fold collect_coin (check_for_collision_with_list inp coins)
               ((apply_physics inp s)
                  \<lparr>sprite_left := st, camera_x_prev := camera_position_x inp, player_sprite := p\<rparr>))"
proof -
  from assms obtain s2 s3 s4 where
      s2: "scroll_background e inp (apply_physics inp s) = Inr s2"
      and s3: "animate_player s2 = Inr s3"
      and s4: "collect_coins inp s3 = Inr s4"
      and s': "s' = center_camera_to_player e s4"
    by (auto simp add: play_frame_def and_then_Inr_iff)
  from scroll_background_Inr [OF s2] obtain st where
      st: "s2 = (apply_physics inp s)\<lparr>sprite_left := st, camera_x_prev := camera_position_x inp\<rparr>"
      "if level s > 1
       then parallax (round_float e) (level s)
                   (round_float e (camera_position_x inp - camera_x_prev s)) (name_mapping s) 0
            (background_layer_names s) (sprite_left s) = Inr st
       else st = sprite_left s"
    by (auto split: if_splits)
  from animate_player_Inr [OF s3] obtain p where
      p: "update_animation (player_sprite s2) = Inr p" "s3 = s2\<lparr>player_sprite := p\<rparr>"
    by auto
  from collect_coins_Inr [OF s4] obtain coins where
      c: "py_getitem (name_mapping s3) LAYER_NAME_COINS = Inr coins"
      "s4 = fold collect_coin (check_for_collision_with_list inp coins) s3"
    by auto
  show thesis
  proof (rule that [of st p coins])
    show "if level s > 1
     then parallax (round_float e) (level s)
                   (round_float e (camera_position_x inp - camera_x_prev s)) (name_mapping s) 0
            (background_layer_names s) (sprite_left s) = Inr st
     else st = sprite_left s" by (rule st(2))
    show "update_animation (player_sprite (apply_physics inp s)) = Inr p"
      using p(1) st(1) by simp
    show "py_getitem (name_mapping s) LAYER_NAME_COINS = Inr coins"
      using c(1) p(2) st(1) by simp
    show "s' = center_camera_to_player e
            (fold collect_coin (check_for_collision_with_list inp coins)
               ((apply_physics inp s)
                  \<lparr>sprite_left := st, camera_x_prev := camera_position_x inp, player_sprite := p\<rparr>))"
      using s' c(2) p(2) st(1) by simp
  qed
qed

lemma play_frame_unchanged:
  assumes "play_frame e inp s = Inr s'"
  shows "left_pressed s' = left_pressed s \<and>
     right_pressed s' = right_pressed s \<and>
     up_pressed s' = up_pressed s \<and>
     down_pressed s' = down_pressed s \<and>
     end_of_map s' = end_of_map s \<and>
     level s' = level s \<and>
     max_level s' = max_level s \<and>
     level_over s' = level_over s \<and>
     next_level s' = next_level s \<and>
     background_layer_names s' = background_layer_names s \<and>
     end_view_shown s' = end_view_shown s"
proof -
  from assms obtain st p coins where
    "s' = center_camera_to_player e
            (fold collect_coin (check_for_collision_with_list inp coins)
               ((apply_physics inp s)
                  \<lparr>sprite_left := st, camera_x_prev := camera_position_x inp, player_sprite := p\<rparr>))"
    by (rule play_frame_Inr)
  then show ?thesis by simp
qed

lemma load_level_Inr:
  assumes "load_level e lv s = Inr s'"
  shows "player_sprite s' = PlayerCharacter_init\<lparr>center_x := PLAYER_START_X, center_y := PLAYER_START_Y\<rparr> \<and>
     camera_x_prev s' = PLAYER_START_X \<and>
     left_pressed s' = left_pressed s \<and>
     right_pressed s' = right_pressed s \<and>
     up_pressed s' = up_pressed s \<and>
     down_pressed s' = down_pressed s \<and>
     jump_needs_reset s' = jump_needs_reset s \<and>
     score s' = score s \<and>
     level s' = level s \<and>
     max_level s' = max_level s \<and>
     level_over s' = level_over s \<and>
     next_level s' = next_level s \<and>
     camera_goal s' = camera_goal s \<and>
     sounds s' = sounds s \<and>
     end_view_shown s' = end_view_shown s"
  using assms
  by (auto simp add: load_level_def and_then_Inr_iff split: option.splits)

lemma level_end_wait:
  assumes "level s < max_level s" "\<not> next_level s"
  shows "level_end e s =
     Inr ((if level s = 4 \<and> \<not> level_over s then s\<lparr>sounds := sounds s @ [Play_victory]\<rparr> else s)
            \<lparr>level_over := True\<rparr>)"
  using assms by (simp add: level_end_def Let_def)

lemma level_end_final:
  assumes "\<not> level s < max_level s"
  shows "level_end e s =
     Inr ((if level s = 4 \<and> \<not> level_over s then s\<lparr>sounds := sounds s @ [Play_victory]\<rparr> else s)
            \<lparr>sounds := (if level s = 4 \<and> \<not> level_over s then sounds s @ [Play_victory] else sounds s)
                         @ [Stop_theme],
             level_over := True,
             end_view_shown := (end_view_shown s \<or> next_level s)\<rparr>)"
  using assms by (simp add: level_end_def Let_def)

lemma level_end_advance:
  assumes "level s < max_level s" "next_level s" "level_end e s = Inr s'"
  shows "\<exists>s4. load_level e (level s + 1)
               ((if level s = 4 \<and> \<not> level_over s then s\<lparr>sounds := sounds s @ [Play_victory]\<rparr> else s)
                  \<lparr>level_over := False, next_level := False, level := level s + 1\<rparr>) = Inr s4 \<and>
            s' = s4\<lparr>player_sprite := (player_sprite s4)
                      \<lparr>center_x := SCREEN_WIDTH, center_y := SCREEN_HEIGHT / 2,
                       change_x := 0, change_y := 0\<rparr>\<rparr>"
  using assms by (auto simp add: level_end_def Let_def and_then_Inr_iff)

lemma on_key_press_fields [simp]:
  "name_mapping (on_key_press k q s) = name_mapping s"
  "sprite_left (on_key_press k q s) = sprite_left s"
  "end_of_map (on_key_press k q s) = end_of_map s"
  "score (on_key_press k q s) = score s"
  "level (on_key_press k q s) = level s"
  "max_level (on_key_press k q s) = max_level s"
  "level_over (on_key_press k q s) = level_over s"
  "camera_x_prev (on_key_press k q s) = camera_x_prev s"
  "camera_goal (on_key_press k q s) = camera_goal s"
  "background_layer_names (on_key_press k q s) = background_layer_names s"
  "end_view_shown (on_key_press k q s) = end_view_shown s"
  "center_x (player_sprite (on_key_press k q s)) = center_x (player_sprite s)"
  "center_y (player_sprite (on_key_press k q s)) = center_y (player_sprite s)"
  "character_face_direction (player_sprite (on_key_press k q s)) = character_face_direction (player_sprite s)"
  "cur_texture (player_sprite (on_key_press k q s)) = cur_texture (player_sprite s)"
  "jumping (player_sprite (on_key_press k q s)) = jumping (player_sprite s)"
  "climbing (player_sprite (on_key_press k q s)) = climbing (player_sprite s)"
  "is_on_ladder (player_sprite (on_key_press k q s)) = is_on_ladder (player_sprite s)"
  "can_jump (player_sprite (on_key_press k q s)) = can_jump (player_sprite s)"
  "texture (player_sprite (on_key_press k q s)) = texture (player_sprite s)"
  by (simp_all add: on_key_press_def)

lemma on_key_release_fields [simp]:
  "name_mapping (on_key_release k q s) = name_mapping s"
  "sprite_left (on_key_release k q s) = sprite_left s"
  "end_of_map (on_key_release k q s) = end_of_map s"
  "score (on_key_release k q s) = score s"
  "level (on_key_release k q s) = level s"
  "max_level (on_key_release k q s) = max_level s"
  "level_over (on_key_release k q s) = level_over s"
  "camera_x_prev (on_key_release k q s) = camera_x_prev s"
  "camera_goal (on_key_release k q s) = camera_goal s"
  "background_layer_names (on_key_release k q s) = background_layer_names s"
  "end_view_shown (on_key_release k q s) = end_view_shown s"
  "center_x (player_sprite (on_key_release k q s)) = center_x (player_sprite s)"
  "center_y (player_sprite (on_key_release k q s)) = center_y (player_sprite s)"
  "character_face_direction (player_sprite (on_key_release k q s)) = character_face_direction (player_sprite s)"
  "cur_texture (player_sprite (on_key_release k q s)) = cur_texture (player_sprite s)"
  "jumping (player_sprite (on_key_release k q s)) = jumping (player_sprite s)"
  "climbing (player_sprite (on_key_release k q s)) = climbing (player_sprite s)"
  "is_on_ladder (player_sprite (on_key_release k q s)) = is_on_ladder (player_sprite s)"
  "can_jump (player_sprite (on_key_release k q s)) = can_jump (player_sprite s)"
  "texture (player_sprite (on_key_release k q s)) = texture (player_sprite s)"
  by (simp_all add: on_key_release_def)

lemma on_key_press_next_level:
  "next_level (on_key_press k q s) = (next_level s \<or> (k = Key_SPACE \<and> level_over s))"
  by (cases k) (simp_all add: on_key_press_def)

lemma on_key_release_next_level [simp]:
  "next_level (on_key_release k q s) = next_level s"
  by (simp add: on_key_release_def)

lemma at_end_key [simp]:
  "at_end e (on_key_press k q s) = at_end e s"
  "at_end e (on_key_release k q s) = at_end e s"
  by (simp_all add: at_end_def right_def)

lemma count_list_replicate_other: "a \<noteq> b \<Longrightarrow> count_list (replicate n a) b = 0"
  by (induction n) simp_all

lemma count_list_replicate_same: "count_list (replicate n a) a = n"
  by (induction n) simp_all

lemma plays_process_keychange:
  "plays c (process_keychange q s) = plays c s + (if c = Play_jump \<and> jump_fires q s then 1 else 0)"
  by (simp add: plays_def process_keychange_sounds)

lemma play_frame_effects:
  assumes "play_frame e inp s = Inr s'"
  shows "\<exists>coins. py_getitem (name_mapping s) LAYER_NAME_COINS = Inr coins \<and>
     sounds s' = (if jump_fires (frame_query inp) s then sounds s @ [Play_jump] else sounds s)
                  @ replicate (length (check_for_collision_with_list inp coins)) Play_coin \<and>
     score s' = score s + 10 * int (length (check_for_collision_with_list inp coins)) \<and>
     name_mapping s' =
       map (\<lambda>(n, l). (n, filter (\<lambda>c. c \<notin> set (check_for_collision_with_list inp coins)) l))
         (name_mapping s) \<and>
     jump_needs_reset s' = (jump_needs_reset s \<or> jump_fires (frame_query inp) s)"
proof -
  from assms obtain st p coins where
    c: "py_getitem (name_mapping s) LAYER_NAME_COINS = Inr coins" and
    s': "s' = center_camera_to_player e
            (fold collect_coin (check_for_collision_with_list inp coins)
               ((apply_physics inp s)
                  \<lparr>sprite_left := st, camera_x_prev := camera_position_x inp, player_sprite := p\<rparr>))"
    by (rule play_frame_Inr)
  show ?thesis
    by (rule exI [of _ coins])
       (simp add: c s' fold_collect_coin_sounds fold_collect_coin_score fold_collect_coin_layers
          apply_physics_sounds apply_physics_reset)
qed

lemma play_frame_plays:
  assumes "play_frame e inp s = Inr s'"
  shows "plays Play_victory s' = plays Play_victory s"
    and "plays Play_jump s' = plays Play_jump s + (if jump_fires (frame_query inp) s then 1 else 0)"
  using play_frame_effects [OF assms]
  by (auto simp add: plays_def count_list_replicate_other)

lemma on_update_flags:
  assumes "on_update e inp s = Inr s'"
  shows "level s' = (if at_end e s \<and> level s < max_level s \<and> next_level s then level s + 1 else level s)"
    and "max_level s' = max_level s"
    and "next_level s' = (next_level s \<and> \<not> (at_end e s \<and> level s < max_level s))"
    and "level_over s' = (if at_end e s then \<not> (level s < max_level s \<and> next_level s) else level_over s)"
    and "plays Play_victory s' =
           plays Play_victory s + (if at_end e s \<and> level s = 4 \<and> \<not> level_over s then 1 else 0)"
    and "end_view_shown s' =
           (end_view_shown s \<or> (at_end e s \<and> \<not> level s < max_level s \<and> next_level s))"
    and "jump_needs_reset s' = (jump_needs_reset s \<or> (\<not> at_end e s \<and> jump_fires (frame_query inp) s))"
    and "plays Play_jump s' =
           plays Play_jump s + (if \<not> at_end e s \<and> jump_fires (frame_query inp) s then 1 else 0)"
proof -
  consider (play) "\<not> at_end e s" | (wait) "at_end e s" "level s < max_level s" "\<not> next_level s"
    | (final) "at_end e s" "\<not> level s < max_level s"
    | (advance) "at_end e s" "level s < max_level s" "next_level s"
    by blast
  then have "level s' = (if at_end e s \<and> level s < max_level s \<and> next_level s then level s + 1 else level s)
    \<and> max_level s' = max_level s
    \<and> next_level s' = (next_level s \<and> \<not> (at_end e s \<and> level s < max_level s))
    \<and> level_over s' = (if at_end e s then \<not> (level s < max_level s \<and> next_level s) else level_over s)
    \<and> plays Play_victory s' =
           plays Play_victory s + (if at_end e s \<and> level s = 4 \<and> \<not> level_over s then 1 else 0)
    \<and> end_view_shown s' =
           (end_view_shown s \<or> (at_end e s \<and> \<not> level s < max_level s \<and> next_level s))
    \<and> jump_needs_reset s' = (jump_needs_reset s \<or> (\<not> at_end e s \<and> jump_fires (frame_query inp) s))
    \<and> plays Play_jump s' =
           plays Play_jump s + (if \<not> at_end e s \<and> jump_fires (frame_query inp) s then 1 else 0)"
  proof cases
    case play
    then have pf: "play_frame e inp s = Inr s'"
      using assms by (simp add: on_update_def at_end_def)
    show ?thesis
      using play play_frame_unchanged [OF pf] play_frame_plays [OF pf] play_frame_effects [OF pf]
      by auto
  next
    case wait
    then have "s' = (if level s = 4 \<and> \<not> level_over s then s\<lparr>sounds := sounds s @ [Play_victory]\<rparr> else s)
            \<lparr>level_over := True\<rparr>"
      using assms level_end_wait [of s e] by (simp add: on_update_def at_end_def)
    then show ?thesis using wait by (simp add: plays_def)
  next
    case final
    then have "s' = (if level s = 4 \<and> \<not> level_over s then s\<lparr>sounds := sounds s @ [Play_victory]\<rparr> else s)
            \<lparr>sounds := (if level s = 4 \<and> \<not> level_over s then sounds s @ [Play_victory] else sounds s)
                         @ [Stop_theme],
             level_over := True,
             end_view_shown := (end_view_shown s \<or> next_level s)\<rparr>"
      using assms level_end_final [of s e] by (simp add: on_update_def at_end_def)
    then show ?thesis using final by (simp add: plays_def)
  next
    case advance
    then have "level_end e s = Inr s'"
      using assms by (simp add: on_update_def at_end_def)
    from level_end_advance [OF advance(2,3) this] obtain s4 where
      s4: "load_level e (level s + 1)
               ((if level s = 4 \<and> \<not> level_over s then s\<lparr>sounds := sounds s @ [Play_victory]\<rparr> else s)
                  \<lparr>level_over := False, next_level := False, level := level s + 1\<rparr>) = Inr s4"
      and s': "s' = s4\<lparr>player_sprite := (player_sprite s4)
                      \<lparr>center_x := SCREEN_WIDTH, center_y := SCREEN_HEIGHT / 2,
                       change_x := 0, change_y := 0\<rparr>\<rparr>"
      by blast
    show ?thesis using advance load_level_Inr [OF s4] by (simp add: s' plays_def)
  qed
  then show "level s' = (if at_end e s \<and> level s < max_level s \<and> next_level s then level s + 1 else level s)"
    and "max_level s' = max_level s"
    and "next_level s' = (next_level s \<and> \<not> (at_end e s \<and> level s < max_level s))"
    and "level_over s' = (if at_end e s then \<not> (level s < max_level s \<and> next_level s) else level_over s)"
    and "plays Play_victory s' =
           plays Play_victory s + (if at_end e s \<and> level s = 4 \<and> \<not> level_over s then 1 else 0)"
    and "end_view_shown s' =
           (end_view_shown s \<or> (at_end e s \<and> \<not> level s < max_level s \<and> next_level s))"
    and "jump_needs_reset s' = (jump_needs_reset s \<or> (\<not> at_end e s \<and> jump_fires (frame_query inp) s))"
    and "plays Play_jump s' =
           plays Play_jump s + (if \<not> at_end e s \<and> jump_fires (frame_query inp) s then 1 else 0)"
    by blast+
qed

lemma on_update_score:
  assumes "on_update e inp s = Inr s'"
  shows "score s \<le> score s'"
proof (cases "at_end e s")
  case False
  then have pf: "play_frame e inp s = Inr s'"
    using assms by (simp add: on_update_def at_end_def)
  from play_frame_effects [OF pf] show ?thesis by auto
next
  case True
  then have le: "level_end e s = Inr s'"
    using assms by (simp add: on_update_def at_end_def)
  show ?thesis
  proof (cases "level s < max_level s \<and> next_level s")
    case adv: True
    from level_end_advance [OF _ _ le] adv obtain s4 where
      s4: "load_level e (level s + 1)
               ((if level s = 4 \<and> \<not> level_over s then s\<lparr>sounds := sounds s @ [Play_victory]\<rparr> else s)
                  \<lparr>level_over := False, next_level := False, level := level s + 1\<rparr>) = Inr s4"
      and s': "s' = s4\<lparr>player_sprite := (player_sprite s4)
                      \<lparr>center_x := SCREEN_WIDTH, center_y := SCREEN_HEIGHT / 2,
                       change_x := 0, change_y := 0\<rparr>\<rparr>"
      by blast
    from load_level_Inr [OF s4] show ?thesis by (simp add: s')
  next
    case False
    then show ?thesis using le
      by (auto simp add: level_end_def Let_def split: if_splits)
  qed
qed

lemma step_score: "step e ev s = Inr s' \<Longrightarrow> score s \<le> score s'"
  by (cases ev) (auto dest: on_update_score)

lemma GameView_setup_score: "GameView_setup e s = Inr s' \<Longrightarrow> score s' = 0"
  by (auto simp add: GameView_setup_def and_then_Inr_iff)

lemma on_key_press_key_down: "on_key_press k q s = process_keychange q (key_down k s)"
  by (simp add: on_key_press_def key_down_def)

lemma on_key_release_key_up: "on_key_release k q s = process_keychange q (key_up k s)"
  by (simp add: on_key_release_def key_up_def)

lemma key_down_fields [simp]:
  "jump_needs_reset (key_down k s) = jump_needs_reset s"
  "sounds (key_down k s) = sounds s"
  "level_over (key_down k s) = level_over s"
  "player_sprite (key_down k s) = player_sprite s"
  by (simp_all add: key_down_def)

lemma key_up_fields [simp]:
  "sounds (key_up k s) = sounds s"
  "level_over (key_up k s) = level_over s"
  "player_sprite (key_up k s) = player_sprite s"
  "jump_needs_reset (key_up k s) = (jump_needs_reset s \<and> k \<noteq> Key_UP \<and> k \<noteq> Key_W)"
  by (simp_all add: key_up_def)

lemma plays_key_press:
  "plays c (on_key_press k q s) =
     plays c s + (if c = Play_jump \<and> jump_fires q (key_down k s) then 1 else 0)"
  by (simp add: on_key_press_key_down plays_process_keychange) (simp add: plays_def)

lemma plays_key_release:
  "plays c (on_key_release k q s) =
     plays c s + (if c = Play_jump \<and> jump_fires q (key_up k s) then 1 else 0)"
  by (simp add: on_key_release_key_up plays_process_keychange) (simp add: plays_def)


lemma step_level_budget:
  assumes "step e ev s = Inr s'"
  shows "level s \<le> level s' \<and>
     level s' + int (pending s') \<le> level s + int (pending s) + (if is_space_press ev then 1 else 0)"
proof (cases ev)
  case (Key_press k q)
  then have "s' = on_key_press k q s" using assms by simp
  then show ?thesis using Key_press
    by (simp add: pending_def on_key_press_next_level)
next
  case (Key_release k q)
  then have "s' = on_key_release k q s" using assms by simp
  then show ?thesis using Key_release by (simp add: pending_def)
next
  case (Update inp)
  then have "on_update e inp s = Inr s'" using assms by simp
  from on_update_flags(1,3) [OF this] show ?thesis using Update
    by (auto simp add: pending_def)
qed

lemma run_level_budget:
  "run e evs s = Inr s' \<Longrightarrow>
     level s \<le> level s' \<and>
     level s' + int (pending s') \<le> level s + int (pending s) + int (length (filter is_space_press evs))"
proof (induction evs arbitrary: s)
  case Nil
  then show ?case by simp
next
  case (Cons ev evs)
  show ?case
  proof (cases "end_view_shown s")
    case True
    then have "s' = s" using Cons.prems by simp
    then show ?thesis by simp
  next
    case False
    then obtain s1 where s1: "step e ev s = Inr s1" and r: "run e evs s1 = Inr s'"
      using Cons.prems by (auto split: sum.splits)
    from step_level_budget [OF s1] Cons.IH [OF r] show ?thesis by auto
  qed
qed

lemma step_victory:
  assumes "step e ev s = Inr s'" "max_level s = 4"
  shows "max_level s' = 4 \<and>
     plays Play_victory s' + victory_armed s' \<le> plays Play_victory s + victory_armed s"
proof (cases ev)
  case (Key_press k q)
  then have "s' = on_key_press k q s" using assms by simp
  then show ?thesis using assms(2) by (simp add: plays_key_press victory_armed_def)
next
  case (Key_release k q)
  then have "s' = on_key_release k q s" using assms by simp
  then show ?thesis using assms(2) by (simp add: plays_key_release victory_armed_def)
next
  case (Update inp)
  then have u: "on_update e inp s = Inr s'" using assms by simp
  from on_update_flags(1,2,4,5) [OF u] assms(2) show ?thesis
    by (auto simp add: victory_armed_def)
qed

lemma run_victory:
  "run e evs s = Inr s' \<Longrightarrow> max_level s = 4 \<Longrightarrow>
     plays Play_victory s' + victory_armed s' \<le> plays Play_victory s + victory_armed s"
proof (induction evs arbitrary: s)
  case Nil
  then show ?case by simp
next
  case (Cons ev evs)
  show ?case
  proof (cases "end_view_shown s")
    case True
    then have "s' = s" using Cons.prems by simp
    then show ?thesis by simp
  next
    case False
    then obtain s1 where s1: "step e ev s = Inr s1" and r: "run e evs s1 = Inr s'"
      using Cons.prems by (auto split: sum.splits)
    from step_victory [OF s1 Cons.prems(2)] Cons.IH [OF r] show ?thesis by auto
  qed
qed

lemma waiting_step:
  assumes "at_end e s" "level s < max_level s" "max_level s = 4" "\<not> next_level s"
    "\<not> end_view_shown s" "\<not> is_space_press ev"
  shows "\<exists>s1. step e ev s = Inr s1 \<and>
     at_end e s1 \<and> level s1 < max_level s1 \<and> max_level s1 = 4 \<and> \<not> next_level s1 \<and>
     \<not> end_view_shown s1 \<and> level s1 = level s \<and>
     plays Play_victory s1 = plays Play_victory s \<and>
     level_over s1 = (level_over s \<or> is_update ev)"
proof (cases ev)
  case (Key_press k q)
  then have "k \<noteq> Key_SPACE" using assms(6) by simp
  then show ?thesis using Key_press assms
    by (simp add: on_key_press_next_level plays_key_press)
next
  case (Key_release k q)
  then show ?thesis using assms by (simp add: plays_key_release)
next
  case (Update inp)
  have "level s \<noteq> 4" using assms(2,3) by simp
  then have "on_update e inp s = Inr (s\<lparr>level_over := True\<rparr>)"
    using assms level_end_wait [of s e] by (simp add: on_update_def at_end_def)
  then show ?thesis using Update assms
    by (simp add: at_end_def plays_def)
qed

lemma waiting_run:
  assumes "at_end e s" "level s < max_level s" "max_level s = 4" "\<not> next_level s"
    "\<not> end_view_shown s" "\<forall>ev\<in>set evs. \<not> is_space_press ev"
  shows "\<exists>s'. run e evs s = Inr s' \<and> level s' = level s \<and> at_end e s' \<and> \<not> next_level s' \<and>
     level_over s' = (level_over s \<or> (\<exists>ev\<in>set evs. is_update ev)) \<and>
     plays Play_victory s' = plays Play_victory s"
  using assms
proof (induction evs arbitrary: s)
  case Nil
  then show ?case by simp
next
  case (Cons ev evs)
  have nsp: "\<not> is_space_press ev" and rest: "\<forall>ev\<in>set evs. \<not> is_space_press ev"
    using Cons.prems(6) by simp_all
  from waiting_step [OF Cons.prems(1-5) nsp] obtain s1 where
    s1: "step e ev s = Inr s1" "at_end e s1" "level s1 < max_level s1" "max_level s1 = 4"
      "\<not> next_level s1" "\<not> end_view_shown s1" "level s1 = level s"
      "plays Play_victory s1 = plays Play_victory s" "level_over s1 = (level_over s \<or> is_update ev)"
    by blast
  from Cons.IH [OF s1(2-6) rest] obtain s' where
    s': "run e evs s1 = Inr s'" "level s' = level s1" "at_end e s'" "\<not> next_level s'"
      "level_over s' = (level_over s1 \<or> (\<exists>ev\<in>set evs. is_update ev))"
      "plays Play_victory s' = plays Play_victory s1"
    by blast
  have "run e (ev # evs) s = Inr s'"
    using Cons.prems(5) s1(1) s'(1) by simp
  then show ?case using s1 s' by auto
qed





lemma layer_sprites_getitem: "py_getitem d k = Inr l \<Longrightarrow> layer_sprites d k = l"
  by (auto simp add: py_getitem_def layer_sprites_def split: option.splits)

lemma layer_sprites_filtered:
  "layer_sprites (map (\<lambda>(n, l). (n, filter P l)) d) k = filter P (layer_sprites d k)"
  by (induction d) (auto simp add: layer_sprites_def)

lemma filter_not_hit:
  "filter (\<lambda>c. c \<notin> set (filter P xs)) xs = filter (\<lambda>c. \<not> P c) xs"
  by (rule filter_cong) auto

lemma play_frame_coins:
  assumes "play_frame e inp s = Inr s'"
  shows "score s' = score s + 10 * int (length (check_for_collision_with_list inp (coins_of s))) \<and>
     coins_of s' = filter (\<lambda>c. c \<notin> set (colliding inp)) (coins_of s) \<and>
     plays Play_coin s' =
       plays Play_coin s + length (check_for_collision_with_list inp (coins_of s))"
proof -
  from play_frame_effects [OF assms] obtain coins where
    c: "py_getitem (name_mapping s) LAYER_NAME_COINS = Inr coins" and
    snd: "sounds s' = (if jump_fires (frame_query inp) s then sounds s @ [Play_jump] else sounds s)
                  @ replicate (length (check_for_collision_with_list inp coins)) Play_coin" and
    sc: "score s' = score s + 10 * int (length (check_for_collision_with_list inp coins))" and
    nm: "name_mapping s' =
       map (\<lambda>(n, l). (n, filter (\<lambda>c. c \<notin> set (check_for_collision_with_list inp coins)) l))
         (name_mapping s)"
    by blast
  have co: "coins_of s = coins"
    using layer_sprites_getitem [OF c] by (simp add: coins_of_def)
  have "coins_of s' = filter (\<lambda>c. c \<notin> set (check_for_collision_with_list inp coins)) coins"
    using co by (simp add: coins_of_def nm layer_sprites_filtered)
  then have "coins_of s' = filter (\<lambda>c. c \<notin> set (colliding inp)) coins"
    unfolding check_for_collision_with_list_def by (simp only: filter_not_hit)
  moreover have "plays Play_coin s' =
       plays Play_coin s + length (check_for_collision_with_list inp coins)"
    by (simp add: plays_def snd count_list_replicate_same)
  ultimately show ?thesis using sc co by simp
qed

lemma level_end_keeps:
  assumes "at_end e s" "\<not> (level s < max_level s \<and> next_level s)" "on_update e inp s = Inr s'"
  shows "name_mapping s' = name_mapping s \<and> score s' = score s \<and> sprite_left s' = sprite_left s \<and>
     player_sprite s' = player_sprite s \<and> camera_x_prev s' = camera_x_prev s \<and>
     end_of_map s' = end_of_map s"
proof -
  from assms have "level_end e s = Inr s'" by (simp add: on_update_def at_end_def)
  then show ?thesis using assms(2)
    by (auto simp add: level_end_def Let_def split: if_splits)
qed

lemma step_coins:
  assumes "step e ev s = Inr s1" "level s1 = level s"
  shows "set (coins_of s1) \<subseteq> set (coins_of s) \<and>
     score s1 = score s + 10 * (int (length (coins_of s)) - int (length (coins_of s1)))"
proof (cases ev)
  case (Key_press k q)
  then have "s1 = on_key_press k q s" using assms by simp
  then show ?thesis by (simp add: coins_of_def)
next
  case (Key_release k q)
  then have "s1 = on_key_release k q s" using assms by simp
  then show ?thesis by (simp add: coins_of_def)
next
  case (Update inp)
  then have u: "on_update e inp s = Inr s1" using assms by simp
  show ?thesis
  proof (cases "at_end e s")
    case True
    from on_update_flags(1) [OF u] assms(2) True
    have "\<not> (level s < max_level s \<and> next_level s)" by auto
    from level_end_keeps [OF True this u] show ?thesis by (simp add: coins_of_def)
  next
    case False
    then have pf: "play_frame e inp s = Inr s1"
      using u by (simp add: on_update_def at_end_def)
    have "length (filter (\<lambda>c. c \<in> set (colliding inp)) (coins_of s)) +
          length (filter (\<lambda>c. c \<notin> set (colliding inp)) (coins_of s)) = length (coins_of s)"
      by (rule sum_length_filter_compl)
    then show ?thesis using play_frame_coins [OF pf]
      by (auto simp add: check_for_collision_with_list_def)
  qed
qed

lemma run_coins:
  "run e evs s = Inr s' \<Longrightarrow> level s' = level s \<Longrightarrow>
     set (coins_of s') \<subseteq> set (coins_of s) \<and>
     score s' = score s + 10 * (int (length (coins_of s)) - int (length (coins_of s')))"
proof (induction evs arbitrary: s)
  case Nil
  then show ?case by simp
next
  case (Cons ev evs)
  show ?case
  proof (cases "end_view_shown s")
    case True
    then have "s' = s" using Cons.prems by simp
    then show ?thesis by simp
  next
    case False
    then obtain s1 where s1: "step e ev s = Inr s1" and r: "run e evs s1 = Inr s'"
      using Cons.prems by (auto split: sum.splits)
    from step_level_budget [OF s1] run_level_budget [OF r] Cons.prems(2)
    have l1: "level s1 = level s" and l2: "level s' = level s1" by simp_all
    from step_coins [OF s1 l1] Cons.IH [OF r l2] show ?thesis by auto
  qed
qed

lemma run_score:
  "run e evs s = Inr s' \<Longrightarrow> score s \<le> score s'"
proof (induction evs arbitrary: s)
  case Nil
  then show ?case by simp
next
  case (Cons ev evs)
  show ?case
  proof (cases "end_view_shown s")
    case True
    then have "s' = s" using Cons.prems by simp
    then show ?thesis by simp
  next
    case False
    then obtain s1 where s1: "step e ev s = Inr s1" and r: "run e evs s1 = Inr s'"
      using Cons.prems by (auto split: sum.splits)
    from step_score [OF s1] Cons.IH [OF r] show ?thesis by simp
  qed
qed

lemma shift_sprites_other: "x \<notin> set xs \<Longrightarrow> shift_sprites rnd d xs st x = st x"
  by (induction xs arbitrary: st) auto

lemma shift_sprites_member:
  "distinct xs \<Longrightarrow> x \<in> set xs \<Longrightarrow> shift_sprites rnd d xs st x = rnd (st x + d)"
  by (induction xs arbitrary: st) (auto simp add: shift_sprites_other)

lemma parallax_other:
  "parallax rnd lv dx d count names st = Inr st' \<Longrightarrow>
     \<forall>n\<in>set names. x \<notin> set (layer_sprites d n) \<Longrightarrow> st' x = st x"
proof (induction names arbitrary: count st)
  case Nil
  then show ?case by simp
next
  case (Cons n ns)
  have rest: "\<forall>n\<in>set ns. x \<notin> set (layer_sprites d n)" and here: "x \<notin> set (layer_sprites d n)"
    using Cons.prems(2) by simp_all
  show ?case
  proof (cases "lv = 4 \<and> count = 3")
    case True
    then have "parallax rnd lv dx d (Suc count) ns st = Inr st'" using Cons.prems(1) by simp
    from Cons.IH [OF this rest] show ?thesis .
  next
    case False
    then obtain layer where l: "py_getitem d n = Inr layer"
      and p: "parallax rnd lv dx d (Suc count) ns
                (shift_sprites rnd (rnd (dx / rnd ((of_nat count + 4) * (1 / 4)))) layer st) = Inr st'"
      using Cons.prems(1) by (auto split: sum.splits)
    have "layer_sprites d n = layer" using l by (rule layer_sprites_getitem)
    then have "x \<notin> set layer" using here by simp
    then show ?thesis using Cons.IH [OF p rest] by (simp add: shift_sprites_other)
  qed
qed

lemma parallax_member:
  "parallax rnd lv dx d count names st = Inr st' \<Longrightarrow>
   distinct (concat (map (layer_sprites d) names)) \<Longrightarrow>
   i < length names \<Longrightarrow> x \<in> set (layer_sprites d (names ! i)) \<Longrightarrow>
     st' x = (if lv = 4 \<and> count + i = 3 then st x
              else rnd (st x + rnd (dx / rnd ((of_nat (count + i) + 4) * (1 / 4)))))"
proof (induction names arbitrary: count st i)
  case Nil
  then show ?case by simp
next
  case (Cons n ns)
  have dn: "distinct (layer_sprites d n)"
    and dr: "distinct (concat (map (layer_sprites d) ns))"
    and disj: "set (layer_sprites d n) \<inter> (\<Union>m\<in>set ns. set (layer_sprites d m)) = {}"
    using Cons.prems(2) by auto
  show ?case
  proof (cases i)
    case 0
    then have xin: "x \<in> set (layer_sprites d n)" using Cons.prems(4) by simp
    then have rest: "\<forall>m\<in>set ns. x \<notin> set (layer_sprites d m)" using disj by auto
    show ?thesis
    proof (cases "lv = 4 \<and> count = 3")
      case True
      then have "parallax rnd lv dx d (Suc count) ns st = Inr st'" using Cons.prems(1) by simp
      from parallax_other [OF this rest] show ?thesis using True 0 by simp
    next
      case False
      then obtain layer where l: "py_getitem d n = Inr layer"
        and p: "parallax rnd lv dx d (Suc count) ns
                  (shift_sprites rnd (rnd (dx / rnd ((of_nat count + 4) * (1 / 4)))) layer st) = Inr st'"
        using Cons.prems(1) by (auto split: sum.splits)
      have ll: "layer_sprites d n = layer" using l by (rule layer_sprites_getitem)
      from parallax_other [OF p rest]
      have "st' x = shift_sprites rnd (rnd (dx / rnd ((of_nat count + 4) * (1 / 4)))) layer st x" .
      also have "\<dots> = rnd (st x + rnd (dx / rnd ((of_nat count + 4) * (1 / 4))))"
        using dn xin ll by (simp add: shift_sprites_member)
      finally show ?thesis using False 0 by auto
    qed
  next
    case (Suc j)
    then have j: "j < length ns" and xin: "x \<in> set (layer_sprites d (ns ! j))"
      using Cons.prems(3,4) by simp_all
    then have "x \<in> (\<Union>m\<in>set ns. set (layer_sprites d m))" by auto
    then have xout: "x \<notin> set (layer_sprites d n)" using disj by auto
    show ?thesis
    proof (cases "lv = 4 \<and> count = 3")
      case True
      then have "parallax rnd lv dx d (Suc count) ns st = Inr st'" using Cons.prems(1) by simp
      from Cons.IH [OF this dr j xin] show ?thesis using Suc by auto
    next
      case False
      then obtain layer where l: "py_getitem d n = Inr layer"
        and p: "parallax rnd lv dx d (Suc count) ns
                  (shift_sprites rnd (rnd (dx / rnd ((of_nat count + 4) * (1 / 4)))) layer st) = Inr st'"
        using Cons.prems(1) by (auto split: sum.splits)
      have ll: "layer_sprites d n = layer" using l by (rule layer_sprites_getitem)
      have "shift_sprites rnd (rnd (dx / rnd ((of_nat count + 4) * (1 / 4)))) layer st x = st x"
        using xout ll by (simp add: shift_sprites_other)
      with Cons.IH [OF p dr j xin] show ?thesis using Suc by auto
    qed
  qed
qed

lemma play_frame_scroll:
  assumes "play_frame e inp s = Inr s'"
  shows "camera_x_prev s' = camera_position_x inp \<and>
     (if level s > 1
      then parallax (round_float e) (level s)
                   (round_float e (camera_position_x inp - camera_x_prev s)) (name_mapping s) 0
             (background_layer_names s) (sprite_left s) = Inr (sprite_left s')
      else sprite_left s' = sprite_left s)"
proof -
  from assms obtain st p coins where
    st: "if level s > 1
     then parallax (round_float e) (level s)
                   (round_float e (camera_position_x inp - camera_x_prev s)) (name_mapping s) 0
            (background_layer_names s) (sprite_left s) = Inr st
     else st = sprite_left s" and
    s': "s' = center_camera_to_player e
            (fold collect_coin (check_for_collision_with_list inp coins)
               ((apply_physics inp s)
                  \<lparr>sprite_left := st, camera_x_prev := camera_position_x inp, player_sprite := p\<rparr>))"
    by (rule play_frame_Inr)
  have "sprite_left s' = st" "camera_x_prev s' = camera_position_x inp"
    by (simp_all add: s')
  then show ?thesis using st by (auto split: if_splits)
qed

lemma load_level_names:
  assumes "load_level e lv s = Inr s'"
  shows "background_layer_names s' =
     sort (filter (\<lambda>name. name \<notin> set NON_BACKGROUND_LAYERS) (map fst (name_mapping s')))"
  using assms by (auto simp add: load_level_def and_then_Inr_iff split: option.splits)

lemma Inr_projr: "\<not> isl x \<Longrightarrow> x = Inr (projr x)"
  by (cases x) simp_all

lemma step_crossing:
  assumes "step e ev s = Inr s'"
  shows "level s' + int (awaiting s')
     \<le> level s + int (awaiting s) + (if is_update ev \<and> at_end e s \<and> \<not> level_over s then 1 else 0)"
proof (cases ev)
  case (Key_press k q)
  then have "s' = on_key_press k q s" using assms by simp
  then show ?thesis using Key_press
    by (simp add: awaiting_def on_key_press_next_level)
next
  case (Key_release k q)
  then have "s' = on_key_release k q s" using assms by simp
  then show ?thesis using Key_release by (simp add: awaiting_def)
next
  case (Update inp)
  then have "on_update e inp s = Inr s'" using assms by simp
  from on_update_flags(1,3,4) [OF this] show ?thesis using Update
    by (auto simp add: awaiting_def)
qed

lemma run_crossing:
  "run e evs s = Inr s' \<Longrightarrow>
     level s' + int (awaiting s') \<le> level s + int (awaiting s) + int (crossings e evs s)"
proof (induction evs arbitrary: s)
  case Nil
  then show ?case by simp
next
  case (Cons ev evs)
  show ?case
  proof (cases "end_view_shown s")
    case True
    then have "s' = s" using Cons.prems by simp
    then show ?thesis by simp
  next
    case False
    then obtain s1 where s1: "step e ev s = Inr s1" and r: "run e evs s1 = Inr s'"
      using Cons.prems by (auto split: sum.splits)
    from step_crossing [OF s1] Cons.IH [OF r] show ?thesis
      using False s1 by auto
  qed
qed

section \<open>Properties of the game view\<close>

subsection \<open>Reaching the end of a level\<close>

text \<open>
  Claim C1. The level number moves at most once per crossing of the end of the map.
  With \<open>max_level = 4\<close>, as the constructor sets it:
  \<^item> from a state at the end of a level below 4 with no advance requested, every sequence
    of frames and key events without a press of space runs without an error, keeps the
    level and keeps the player at the end; \<open>level_over\<close> is set as soon as one frame has
    run, and stays set; the victory sound is not played;
  \<^item> one frame adds 1 to the level exactly when the player is at the end, the level is
    below 4 and \<open>next_level\<close> is set, and that frame clears \<open>next_level\<close> and
    \<open>level_over\<close>; every other frame at the end sets \<open>level_over\<close>;
  \<^item> over any sequence of events the level never falls; it rises by at most the number
    of presses of space (and one more if an advance was already requested), and by at most
    the number of crossings, the frames that find the player at the end while
    \<open>level_over\<close> is not yet set (and one more if a completed level was already waiting
    for its transition); the victory sound is played at most once, and not at all once the
    last level is over.
\<close>

theorem level_advances_once_per_crossing:
  assumes "max_level s = 4"
  shows
   "(at_end e s \<and> level s < 4 \<and> \<not> next_level s \<and> \<not> end_view_shown s \<and>
       (\<forall>ev\<in>set evs. \<not> is_space_press ev) \<longrightarrow>
       (\<exists>s'. run e evs s = Inr s' \<and> level s' = level s \<and> at_end e s' \<and> \<not> next_level s' \<and>
             level_over s' = (level_over s \<or> (\<exists>ev\<in>set evs. is_update ev)) \<and>
             plays Play_victory s' = plays Play_victory s)) \<and>
    (on_update e inp s = Inr s1 \<longrightarrow>
       level s1 = (if at_end e s \<and> level s < 4 \<and> next_level s then level s + 1 else level s) \<and>
       next_level s1 = (next_level s \<and> \<not> (at_end e s \<and> level s < 4)) \<and>
       level_over s1 = (if at_end e s then \<not> (level s < 4 \<and> next_level s) else level_over s)) \<and>
    (run e evs s = Inr s2 \<longrightarrow>
       level s \<le> level s2 \<and>
       level s2 + int (pending s2)
         \<le> level s + int (pending s) + int (length (filter is_space_press evs)) \<and>
       level s2 + int (awaiting s2) \<le> level s + int (awaiting s) + int (crossings e evs s) \<and>
       plays Play_victory s2 + victory_armed s2 \<le> plays Play_victory s + victory_armed s)"
proof (intro conjI impI)
  assume a: "at_end e s \<and> level s < 4 \<and> \<not> next_level s \<and> \<not> end_view_shown s \<and>
       (\<forall>ev\<in>set evs. \<not> is_space_press ev)"
  then have "level s < max_level s" using assms by simp
  with a assms show "\<exists>s'. run e evs s = Inr s' \<and> level s' = level s \<and> at_end e s' \<and> \<not> next_level s' \<and>
             level_over s' = (level_over s \<or> (\<exists>ev\<in>set evs. is_update ev)) \<and>
             plays Play_victory s' = plays Play_victory s"
    using waiting_run [of e s evs] by blast
next
  assume u: "on_update e inp s = Inr s1"
  show "level s1 = (if at_end e s \<and> level s < 4 \<and> next_level s then level s + 1 else level s)"
    using on_update_flags(1) [OF u] assms by simp
  show "next_level s1 = (next_level s \<and> \<not> (at_end e s \<and> level s < 4))"
    using on_update_flags(3) [OF u] assms by simp
  show "level_over s1 = (if at_end e s then \<not> (level s < 4 \<and> next_level s) else level_over s)"
    using on_update_flags(4) [OF u] assms by simp
next
  assume r: "run e evs s = Inr s2"
  show "level s \<le> level s2"
    using run_level_budget [OF r] by simp
  show "level s2 + int (pending s2)
         \<le> level s + int (pending s) + int (length (filter is_space_press evs))"
    using run_level_budget [OF r] by simp
  show "level s2 + int (awaiting s2) \<le> level s + int (awaiting s) + int (crossings e evs s)"
    using r by (rule run_crossing)
  show "plays Play_victory s2 + victory_armed s2 \<le> plays Play_victory s + victory_armed s"
    using run_victory [OF r assms] .
qed

text \<open>
  The player has reached the end of level 1 of the small game; two more frames and a press
  of the up key leave the level at 1 with \<open>level_over\<close> set.
\<close>

theorem level_advances_once_per_crossing_witness:
  "max_level (game_after [Update (frame_at 3700 3200 [])]) = 4 \<and>
   at_end example_env (game_after [Update (frame_at 3700 3200 [])]) \<and>
   level (game_after [Update (frame_at 3700 3200 [])]) < 4 \<and>
   \<not> next_level (game_after [Update (frame_at 3700 3200 [])]) \<and>
   \<not> end_view_shown (game_after [Update (frame_at 3700 3200 [])]) \<and>
   (\<exists>s'. run example_env
           [Update (frame_at 3700 3200 []), Key_press Key_UP on_ground,
            Update (frame_at 3700 3200 [])]
           (game_after [Update (frame_at 3700 3200 [])]) = Inr s' \<and>
         level s' = 1 \<and> level_over s' \<and> \<not> next_level s' \<and> plays Play_victory s' = 0)"
proof -
  let ?S = "game_after [Update (frame_at 3700 3200 [])]"
  let ?evs = "[Update (frame_at 3700 3200 []), Key_press Key_UP on_ground,
            Update (frame_at 3700 3200 [])]"
  have m: "max_level ?S = 4" by code_simp
  have a: "at_end example_env ?S" by code_simp
  have l: "level ?S < 4" by code_simp
  have l1: "level ?S = 1" by code_simp
  have n: "\<not> next_level ?S" by code_simp
  have v: "\<not> end_view_shown ?S" by code_simp
  have p: "plays Play_victory ?S = 0" by code_simp
  have sp: "\<forall>ev\<in>set ?evs. \<not> is_space_press ev" by simp
  have up: "\<exists>ev\<in>set ?evs. is_update ev" by simp
  from level_advances_once_per_crossing [OF m, of example_env ?evs] a l n v sp
  have "\<exists>s'. run example_env ?evs ?S = Inr s' \<and> level s' = level ?S \<and> at_end example_env s' \<and>
          \<not> next_level s' \<and> level_over s' = (level_over ?S \<or> (\<exists>ev\<in>set ?evs. is_update ev)) \<and>
          plays Play_victory s' = plays Play_victory ?S"
    by blast
  then have "\<exists>s'. run example_env ?evs ?S = Inr s' \<and>
         level s' = 1 \<and> level_over s' \<and> \<not> next_level s' \<and> plays Play_victory s' = 0"
    using up l1 p by auto
  with m a l n v show ?thesis by blast
qed

subsection \<open>Jumping\<close>




subsection \<open>Coins and score\<close>

text \<open>
  Claim C4.
  \<^item> A frame that runs the coin check adds 10 points for every coin of the active list
    that touches the player, leaves exactly the other coins in the list, and plays the coin
    sound once for every coin hit.
  \<^item> Over any sequence of events the score never falls.
  \<^item> While the level stays the same, the active coins are among the earlier ones and the
    points gained are 10 times the number of coins that have left the list: no coin counts
    twice.
  \<^item> A coin that touched the player in a frame is in no later coin list of that level.
\<close>

theorem coins_score_once:
  "(\<not> at_end e s \<and> on_update e inp s = Inr s1 \<longrightarrow>
      score s1 = score s + 10 * int (length (check_for_collision_with_list inp (coins_of s))) \<and>
      coins_of s1 = filter (\<lambda>c. c \<notin> set (colliding inp)) (coins_of s) \<and>
      plays Play_coin s1 =
        plays Play_coin s + length (check_for_collision_with_list inp (coins_of s))) \<and>
   (run e evs s = Inr s2 \<longrightarrow> score s \<le> score s2) \<and>
   (run e evs s = Inr s2 \<and> level s2 = level s \<longrightarrow>
      set (coins_of s2) \<subseteq> set (coins_of s) \<and>
      score s2 = score s + 10 * (int (length (coins_of s)) - int (length (coins_of s2)))) \<and>
   (\<not> at_end e s \<and> on_update e inp s = Inr s1 \<and> c \<in> set (colliding inp) \<and>
    run e evs s1 = Inr s3 \<and> level s3 = level s1 \<longrightarrow> c \<notin> set (coins_of s3))"
proof (intro conjI impI)
  assume a: "\<not> at_end e s \<and> on_update e inp s = Inr s1"
  then have "\<not> at_end e s" and "on_update e inp s = Inr s1" by blast+
  then have pf: "play_frame e inp s = Inr s1" by (simp add: on_update_def at_end_def)
  from play_frame_coins [OF pf]
  show "score s1 = score s + 10 * int (length (check_for_collision_with_list inp (coins_of s)))"
    and "coins_of s1 = filter (\<lambda>c. c \<notin> set (colliding inp)) (coins_of s)"
    and "plays Play_coin s1 =
        plays Play_coin s + length (check_for_collision_with_list inp (coins_of s))"
    by simp_all
next
  assume "run e evs s = Inr s2"
  then show "score s \<le> score s2" by (rule run_score)
next
  assume a: "run e evs s = Inr s2 \<and> level s2 = level s"
  then have r: "run e evs s = Inr s2" and l: "level s2 = level s" by simp_all
  from run_coins [OF r l]
  show "set (coins_of s2) \<subseteq> set (coins_of s)"
    and "score s2 = score s + 10 * (int (length (coins_of s)) - int (length (coins_of s2)))"
    by simp_all
next
  assume a: "\<not> at_end e s \<and> on_update e inp s = Inr s1 \<and> c \<in> set (colliding inp) \<and>
    run e evs s1 = Inr s3 \<and> level s3 = level s1"
  then have "\<not> at_end e s" and "on_update e inp s = Inr s1" by blast+
  then have pf: "play_frame e inp s = Inr s1" by (simp add: on_update_def at_end_def)
  from a have r: "run e evs s1 = Inr s3" and l: "level s3 = level s1" and c: "c \<in> set (colliding inp)"
    by simp_all
  from play_frame_coins [OF pf] c have "c \<notin> set (coins_of s1)" by simp
  with run_coins [OF r l] show "c \<notin> set (coins_of s3)" by blast
qed

theorem coins_score_once_witness:
  "\<not> at_end example_env (game_after []) \<and> coins_of (game_after []) = [10, 11, 12] \<and>
   score (projr (on_update example_env (frame_at 300 0 [10, 12]) (game_after []))) = 20 \<and>
   coins_of (projr (on_update example_env (frame_at 300 0 [10, 12]) (game_after []))) = [11] \<and>
   plays Play_coin (projr (on_update example_env (frame_at 300 0 [10, 12]) (game_after []))) = 2 \<and>
   10 \<notin> set (coins_of (projr (run example_env
        [Update (frame_at 300 0 [10, 12]), Update (frame_at 300 0 [10, 11])]
        (projr (on_update example_env (frame_at 300 0 [10, 12]) (game_after []))))))"
proof -
  let ?S = "game_after []"
  let ?inp = "frame_at 300 0 [10, 12]"
  let ?S1 = "projr (on_update example_env ?inp ?S)"
  let ?evs = "[Update (frame_at 300 0 [10, 12]), Update (frame_at 300 0 [10, 11])]"
  let ?S3 = "projr (run example_env ?evs ?S1)"
  have a: "\<not> at_end example_env ?S" by code_simp
  have c0: "coins_of ?S = [10, 11, 12]" by code_simp
  have s0: "score ?S = 0" by code_simp
  have p0: "plays Play_coin ?S = 0" by code_simp
  have "\<not> isl (on_update example_env ?inp ?S)" by code_simp
  then have u: "on_update example_env ?inp ?S = Inr ?S1" by (rule Inr_projr)
  have "\<not> isl (run example_env ?evs ?S1)" by code_simp
  then have r: "run example_env ?evs ?S1 = Inr ?S3" by (rule Inr_projr)
  have l: "level ?S3 = level ?S1" by code_simp
  have c: "(10::nat) \<in> set (colliding ?inp)" by (simp add: frame_at_def)
  from coins_score_once [of example_env ?S ?inp ?S1 ?evs ?S3 10 ?S3] a u r l c
  have "score ?S1 = score ?S + 10 * int (length (check_for_collision_with_list ?inp (coins_of ?S))) \<and>
      coins_of ?S1 = filter (\<lambda>c. c \<notin> set (colliding ?inp)) (coins_of ?S) \<and>
      plays Play_coin ?S1 =
        plays Play_coin ?S + length (check_for_collision_with_list ?inp (coins_of ?S)) \<and>
      10 \<notin> set (coins_of ?S3)"
    by blast
  then show ?thesis using a c0 s0 p0
    by (simp add: check_for_collision_with_list_def frame_at_def)
qed

subsection \<open>The parallax background\<close>

text \<open>
  Claim C5, as the code has it. The parallax code stands in the second branch of
  \<^verbatim>\<open>on_update\<close>. On a frame of a level above 1 in which the player's right edge has not
  reached the end of the map, with every sprite in one background layer only:
  \<^item> each sprite of background layer \<open>i\<close> (in the order of \<open>background_layer_names\<close>)
    gets as its new left coordinate the float sum of the old one and the float quotient
    \<open>(cameraX - prevCameraX) / ((i + 4) * 0.25)\<close>, every operation rounded, except that
    layer 3 stays where it is on level 4;
  \<^item> where the rounding changes nothing, the left coordinate changes by exactly
    \<open>(cameraX - prevCameraX) / ((i + 4) * 0.25)\<close>;
  \<^item> when the camera has not moved, a sprite whose left coordinate is a float does not
    move (the rounding leaves 0 and that coordinate as they are);
  \<^item> a sprite of no background layer does not move;
  \<^item> the camera sample becomes the camera's position.

  The layer names are the sorted names of the scene's layers outside
  \<^verbatim>\<open>NON_BACKGROUND_LAYERS\<close>, as \<^verbatim>\<open>load_level\<close> computes them.
\<close>

theorem parallax_shift:
  assumes "\<not> at_end e s" "level s > 1" "on_update e inp s = Inr s'"
    "distinct (concat (map (layer_sprites (name_mapping s)) (background_layer_names s)))"
  shows "(\<forall>i<length (background_layer_names s).
            \<forall>x\<in>set (layer_sprites (name_mapping s) (background_layer_names s ! i)).
              left_of x s' =
                (if level s = 4 \<and> i = 3 then left_of x s
                 else round_float e (left_of x s +
                        round_float e (round_float e (camera_position_x inp - camera_x_prev s)
                                         / round_float e ((of_nat i + 4) * (1 / 4)))))) \<and>
         ((\<forall>y. round_float e y = y) \<longrightarrow>
            (\<forall>i<length (background_layer_names s).
               \<forall>x\<in>set (layer_sprites (name_mapping s) (background_layer_names s ! i)).
                 left_of x s' = left_of x s +
                   (if level s = 4 \<and> i = 3 then 0
                    else (camera_position_x inp - camera_x_prev s) / ((of_nat i + 4) * (1 / 4))))) \<and>
         (camera_position_x inp = camera_x_prev s \<and> round_float e 0 = 0 \<longrightarrow>
            (\<forall>i<length (background_layer_names s).
               \<forall>x\<in>set (layer_sprites (name_mapping s) (background_layer_names s ! i)).
                 round_float e (left_of x s) = left_of x s \<longrightarrow> left_of x s' = left_of x s)) \<and>
         (\<forall>x. (\<forall>n\<in>set (background_layer_names s). x \<notin> set (layer_sprites (name_mapping s) n))
               \<longrightarrow> left_of x s' = left_of x s) \<and>
         camera_x_prev s' = camera_position_x inp \<and>
         (\<forall>lv s0 s1. load_level e lv s0 = Inr s1 \<longrightarrow>
            background_layer_names s1 =
              sort (filter (\<lambda>name. name \<notin> set NON_BACKGROUND_LAYERS) (map fst (name_mapping s1))))"
proof -
  from assms(1,3) have pf: "play_frame e inp s = Inr s'"
    by (simp add: on_update_def at_end_def)
  from play_frame_scroll [OF pf] assms(2) have
    cam: "camera_x_prev s' = camera_position_x inp" and
    par: "parallax (round_float e) (level s)
             (round_float e (camera_position_x inp - camera_x_prev s)) (name_mapping s) 0
             (background_layer_names s) (sprite_left s) = Inr (sprite_left s')"
    by simp_all
  have shift: "left_of x s' =
                (if level s = 4 \<and> i = 3 then left_of x s
                 else round_float e (left_of x s +
                        round_float e (round_float e (camera_position_x inp - camera_x_prev s)
                                         / round_float e ((of_nat i + 4) * (1 / 4)))))"
    if "i < length (background_layer_names s)"
      and "x \<in> set (layer_sprites (name_mapping s) (background_layer_names s ! i))" for i x
    using parallax_member [OF par assms(4) that] by (simp add: left_of_def)
  have exact: "left_of x s' = left_of x s +
                   (if level s = 4 \<and> i = 3 then 0
                    else (camera_position_x inp - camera_x_prev s) / ((of_nat i + 4) * (1 / 4)))"
    if "\<forall>y. round_float e y = y" "i < length (background_layer_names s)"
      and "x \<in> set (layer_sprites (name_mapping s) (background_layer_names s ! i))" for i x
    using shift [OF that(2,3)] that(1) by simp
  have still: "left_of x s' = left_of x s"
    if "camera_position_x inp = camera_x_prev s \<and> round_float e 0 = 0"
      "i < length (background_layer_names s)"
      "x \<in> set (layer_sprites (name_mapping s) (background_layer_names s ! i))"
      "round_float e (left_of x s) = left_of x s" for i x
    using shift [OF that(2,3)] that(1,4) by simp
  have other: "left_of x s' = left_of x s"
    if "\<forall>n\<in>set (background_layer_names s). x \<notin> set (layer_sprites (name_mapping s) n)" for x
    using parallax_other [OF par that] by (simp add: left_of_def)
  from shift exact still other cam load_level_names show ?thesis by blast
qed

theorem parallax_shift_witness:
  "\<not> at_end example_env
       (game_after [Update (frame_at 3700 3200 []), Update (frame_at 3700 3200 []),
                    Key_press Key_SPACE on_ground, Update (frame_at 3700 3200 [])]) \<and>
   level (game_after [Update (frame_at 3700 3200 []), Update (frame_at 3700 3200 []),
                    Key_press Key_SPACE on_ground, Update (frame_at 3700 3200 [])]) = 2 \<and>
   background_layer_names
      (game_after [Update (frame_at 3700 3200 []), Update (frame_at 3700 3200 []),
                    Key_press Key_SPACE on_ground, Update (frame_at 3700 3200 [])])
     = [''Clouds'', ''Hills'', ''Sky'', ''Trees''] \<and>
   left_of 32 (game_after [Update (frame_at 3700 3200 []), Update (frame_at 3700 3200 []),
                    Key_press Key_SPACE on_ground, Update (frame_at 3700 3200 [])]) = 3200 \<and>
   left_of 32 (projr (on_update example_env (frame_at 1100 355 [])
      (game_after [Update (frame_at 3700 3200 []), Update (frame_at 3700 3200 []),
                    Key_press Key_SPACE on_ground, Update (frame_at 3700 3200 [])]))) = 3284"
proof -
  let ?S = "game_after [Update (frame_at 3700 3200 []), Update (frame_at 3700 3200 []),
                    Key_press Key_SPACE on_ground, Update (frame_at 3700 3200 [])]"
  let ?inp = "frame_at 1100 355 []"
  let ?S' = "projr (on_update example_env ?inp ?S)"
  have a: "\<not> at_end example_env ?S" by code_simp
  have l: "level ?S = 2" by code_simp
  then have l1: "level ?S > 1" by simp
  have "\<not> isl (on_update example_env ?inp ?S)" by code_simp
  then have u: "on_update example_env ?inp ?S = Inr ?S'" by (rule Inr_projr)
  have d: "distinct (concat (map (layer_sprites (name_mapping ?S)) (background_layer_names ?S)))"
    by code_simp
  have n: "background_layer_names ?S = [''Clouds'', ''Hills'', ''Sky'', ''Trees'']" by code_simp
  have i: "1 < length (background_layer_names ?S)" by (simp add: n)
  have x: "32 \<in> set (layer_sprites (name_mapping ?S) (background_layer_names ?S ! 1))"
    by code_simp
  have l0: "left_of 32 ?S = 3200" by code_simp
  have c: "camera_x_prev ?S = 250" by code_simp
  have cp: "camera_position_x ?inp = 355" by (simp add: frame_at_def)
  have r: "\<forall>y. round_float example_env y = y" by (simp add: example_env_def)
  from parallax_shift [OF a l1 u d] r i x
  have "left_of 32 ?S' = left_of 32 ?S +
          (if level ?S = 4 \<and> (1::nat) = 3 then 0
           else (camera_position_x ?inp - camera_x_prev ?S) / ((of_nat 1 + 4) * (1 / 4)))"
    by blast
  then have "left_of 32 ?S' = 3284"
    by (simp add: l l0 c cp)
  with a l n l0 show ?thesis by blast
qed

text \<open>
  The claim as stated speaks of every frame of a level above 1. In a frame in which the
  player stands at the end of the map nothing is shifted: on level 2, with the camera 100
  to the right of the previous sample, the sprite of background layer 0 stays where it was.
\<close>

theorem no_parallax_at_end_counterexample:
  "level (game_after [Update (frame_at 3700 3200 []), Update (frame_at 3700 3200 []),
                      Key_press Key_SPACE on_ground, Update (frame_at 3700 3200 []),
                      Update (frame_at 6300 5815 [])]) = 2 \<and>
   camera_x_prev (game_after [Update (frame_at 3700 3200 []), Update (frame_at 3700 3200 []),
                      Key_press Key_SPACE on_ground, Update (frame_at 3700 3200 []),
                      Update (frame_at 6300 5815 [])]) = 5815 \<and>
   camera_position_x (frame_at 6300 5915 []) = 5915 \<and>
   background_layer_names (game_after [Update (frame_at 3700 3200 []), Update (frame_at 3700 3200 []),
                      Key_press Key_SPACE on_ground, Update (frame_at 3700 3200 []),
                      Update (frame_at 6300 5815 [])]) ! 0 = ''Clouds'' \<and>
   layer_sprites (name_mapping (game_after [Update (frame_at 3700 3200 []), Update (frame_at 3700 3200 []),
                      Key_press Key_SPACE on_ground, Update (frame_at 3700 3200 []),
                      Update (frame_at 6300 5815 [])])) ''Clouds'' = [33] \<and>
   map_sum id (left_of 33)
     (on_update example_env (frame_at 6300 5915 [])
        (game_after [Update (frame_at 3700 3200 []), Update (frame_at 3700 3200 []),
                      Key_press Key_SPACE on_ground, Update (frame_at 3700 3200 []),
                      Update (frame_at 6300 5815 [])]))
     = Inr (left_of 33 (game_after [Update (frame_at 3700 3200 []), Update (frame_at 3700 3200 []),
                      Key_press Key_SPACE on_ground, Update (frame_at 3700 3200 []),
                      Update (frame_at 6300 5815 [])]))"
  by code_simp

subsection \<open>Keys on a ladder\<close>

text \<open>
  Claim C6. On a ladder, while the level is not over, \<^verbatim>\<open>process_keychange\<close> sets the
  vertical velocity to \<^verbatim>\<open>PLAYER_MOVEMENT_SPEED\<close> for up without down, to its negative
  for down without up, and to 0 for both or neither; the left and right keys have no
  influence on it.
\<close>

theorem ladder_vertical_velocity:
  "q_is_on_ladder q \<Longrightarrow> \<not> level_over s \<Longrightarrow>
     change_y (player_sprite (process_keychange q s)) =
       (if up_pressed s \<and> \<not> down_pressed s then PLAYER_MOVEMENT_SPEED
        else if down_pressed s \<and> \<not> up_pressed s then - PLAYER_MOVEMENT_SPEED
        else 0) \<and>
     change_y (player_sprite (process_keychange q (s\<lparr>left_pressed := l, right_pressed := r\<rparr>))) =
       change_y (player_sprite (process_keychange q s))"
  by (simp add: process_keychange_change_y)

theorem ladder_vertical_velocity_witness:
  "q_is_on_ladder on_a_ladder \<and>
   \<not> level_over (GameView_init\<lparr>up_pressed := True, down_pressed := True, right_pressed := True\<rparr>) \<and>
   change_y (player_sprite (process_keychange on_a_ladder
      (GameView_init\<lparr>up_pressed := True, down_pressed := True, right_pressed := True\<rparr>))) = 0 \<and>
   change_y (player_sprite (process_keychange on_a_ladder
      (GameView_init\<lparr>up_pressed := True\<rparr>))) = 7"
proof -
  have a: "q_is_on_ladder on_a_ladder" by (simp add: on_a_ladder_def)
  have b: "\<not> level_over (GameView_init\<lparr>up_pressed := True, down_pressed := True, right_pressed := True\<rparr>)"
    and c: "\<not> level_over (GameView_init\<lparr>up_pressed := True\<rparr>)"
    by (simp_all add: GameView_init_def)
  from ladder_vertical_velocity [OF a b] ladder_vertical_velocity [OF a c] a b
  show ?thesis by (simp add: GameView_init_def PLAYER_MOVEMENT_SPEED_def)
qed

subsection \<open>The transition to the next level\<close>

text \<open>
  Claim C8, as the code has it. The frame that advances from a completed level below the
  last one calls \<^verbatim>\<open>load_level\<close>, which creates a new player sprite; the frame then
  places it at \<open>(SCREEN_WIDTH, SCREEN_HEIGHT / 2)\<close> with both velocity components 0. The
  player after the transition is therefore the player of the constructor at that position,
  whatever the state of the old one. The score is unchanged by the transition; no handler
  ever lowers the score, and \<^verbatim>\<open>setup\<close> sets it to 0.
\<close>

theorem advance_places_new_player:
  assumes "at_end e s" "level s < max_level s" "next_level s" "on_update e inp s = Inr s'"
  shows "player_sprite s' =
           PlayerCharacter_init\<lparr>center_x := SCREEN_WIDTH, center_y := SCREEN_HEIGHT / 2\<rparr> \<and>
         change_x (player_sprite s') = 0 \<and> change_y (player_sprite s') = 0 \<and>
         score s' = score s \<and> level s' = level s + 1 \<and>
         (\<forall>ev s0 s1. step e ev s0 = Inr s1 \<longrightarrow> score s0 \<le> score s1) \<and>
         (\<forall>s0 s1. GameView_setup e s0 = Inr s1 \<longrightarrow> score s1 = 0)"
proof -
  from assms have le: "level_end e s = Inr s'"
    by (simp add: on_update_def at_end_def)
  from level_end_advance [OF assms(2,3) le] obtain s4 where
      s4: "load_level e (level s + 1)
               ((if level s = 4 \<and> \<not> level_over s then s\<lparr>sounds := sounds s @ [Play_victory]\<rparr> else s)
                  \<lparr>level_over := False, next_level := False, level := level s + 1\<rparr>) = Inr s4"
      and s': "s' = s4\<lparr>player_sprite := (player_sprite s4)
                      \<lparr>center_x := SCREEN_WIDTH, center_y := SCREEN_HEIGHT / 2,
                       change_x := 0, change_y := 0\<rparr>\<rparr>"
    by blast
  from load_level_Inr [OF s4] have
    "player_sprite s' =
           PlayerCharacter_init\<lparr>center_x := SCREEN_WIDTH, center_y := SCREEN_HEIGHT / 2\<rparr> \<and>
         change_x (player_sprite s') = 0 \<and> change_y (player_sprite s') = 0 \<and>
         score s' = score s \<and> level s' = level s + 1"
    by (simp add: s' PlayerCharacter_init_def)
  then show ?thesis
    using step_score GameView_setup_score by blast
qed

theorem advance_places_new_player_witness:
  "at_end example_env
     (game_after [Key_press Key_LEFT on_ground, Update (frame_at 3700 3200 [10]),
                  Key_release Key_LEFT on_ground, Update (frame_at 3700 3200 []),
                  Key_press Key_SPACE on_ground]) \<and>
   next_level
     (game_after [Key_press Key_LEFT on_ground, Update (frame_at 3700 3200 [10]),
                  Key_release Key_LEFT on_ground, Update (frame_at 3700 3200 []),
                  Key_press Key_SPACE on_ground]) \<and>
   score (projr (on_update example_env (frame_at 3700 3200 [])
     (game_after [Key_press Key_LEFT on_ground, Update (frame_at 3700 3200 [10]),
                  Key_release Key_LEFT on_ground, Update (frame_at 3700 3200 []),
                  Key_press Key_SPACE on_ground]))) = 10 \<and>
   level (projr (on_update example_env (frame_at 3700 3200 [])
     (game_after [Key_press Key_LEFT on_ground, Update (frame_at 3700 3200 [10]),
                  Key_release Key_LEFT on_ground, Update (frame_at 3700 3200 []),
                  Key_press Key_SPACE on_ground]))) = 2 \<and>
   center_x (player_sprite (projr (on_update example_env (frame_at 3700 3200 [])
     (game_after [Key_press Key_LEFT on_ground, Update (frame_at 3700 3200 [10]),
                  Key_release Key_LEFT on_ground, Update (frame_at 3700 3200 []),
                  Key_press Key_SPACE on_ground])))) = 1000"
proof -
  let ?S = "game_after [Key_press Key_LEFT on_ground, Update (frame_at 3700 3200 [10]),
                  Key_release Key_LEFT on_ground, Update (frame_at 3700 3200 []),
                  Key_press Key_SPACE on_ground]"
  let ?inp = "frame_at 3700 3200 []"
  let ?S' = "projr (on_update example_env ?inp ?S)"
  have a: "at_end example_env ?S" by code_simp
  have l: "level ?S < max_level ?S" by code_simp
  have l1: "level ?S = 1" by code_simp
  have sc: "score ?S = 10" by code_simp
  have n: "next_level ?S" by code_simp
  have "\<not> isl (on_update example_env ?inp ?S)" by code_simp
  then have u: "on_update example_env ?inp ?S = Inr ?S'" by (rule Inr_projr)
  from advance_places_new_player [OF a l n u]
  have "player_sprite ?S' =
           PlayerCharacter_init\<lparr>center_x := SCREEN_WIDTH, center_y := SCREEN_HEIGHT / 2\<rparr> \<and>
        score ?S' = score ?S \<and> level ?S' = level ?S + 1"
    by blast
  then show ?thesis using a n l1 sc by (simp add: SCREEN_WIDTH_def)
qed

text \<open>
  A sprite that is only moved keeps its facing direction. Here the player faces left
  before the transition and right after it: the sprite after the transition is a new one.
\<close>

theorem player_recreated_counterexample:
  "player_facing
     (game_after [Key_press Key_LEFT on_ground, Update (frame_at 3700 3200 [10]),
                  Key_release Key_LEFT on_ground, Update (frame_at 3700 3200 []),
                  Key_press Key_SPACE on_ground]) = LEFT_FACING \<and>
   map_sum id player_facing
     (on_update example_env (frame_at 3700 3200 [])
        (game_after [Key_press Key_LEFT on_ground, Update (frame_at 3700 3200 [10]),
                  Key_release Key_LEFT on_ground, Update (frame_at 3700 3200 []),
                  Key_press Key_SPACE on_ground])) = Inr RIGHT_FACING"
  by code_simp

subsection \<open>Keys while the level is over\<close>

text \<open>
  Claim C10. While \<open>level_over\<close> is set, \<^verbatim>\<open>process_keychange\<close> changes nothing, so a
  key press or release leaves the player sprite, and with it both velocity components,
  unchanged. A key press changes only the pressed flag of its key and \<open>next_level\<close>,
  which a press of space sets. A key release changes only the pressed flag of its key and,
  for the up key, \<open>jump_needs_reset\<close>, the fifth of the key-state flags of the
  constructor, which it clears.
\<close>

theorem keys_ignored_when_level_over:
  "level_over s \<Longrightarrow>
     process_keychange q s = s \<and>
     player_sprite (on_key_press k q s) = player_sprite s \<and>
     player_sprite (on_key_release k q s) = player_sprite s \<and>
     on_key_press k q s =
       s\<lparr>up_pressed := (up_pressed s \<or> k = Key_UP \<or> k = Key_W),
         down_pressed := (down_pressed s \<or> k = Key_DOWN \<or> k = Key_S),
         left_pressed := (left_pressed s \<or> k = Key_LEFT \<or> k = Key_A),
         right_pressed := (right_pressed s \<or> k = Key_RIGHT \<or> k = Key_D),
         next_level := (next_level s \<or> k = Key_SPACE)\<rparr> \<and>
     on_key_release k q s =
       s\<lparr>up_pressed := (up_pressed s \<and> k \<noteq> Key_UP \<and> k \<noteq> Key_W),
         jump_needs_reset := (jump_needs_reset s \<and> k \<noteq> Key_UP \<and> k \<noteq> Key_W),
         down_pressed := (down_pressed s \<and> k \<noteq> Key_DOWN \<and> k \<noteq> Key_S),
         left_pressed := (left_pressed s \<and> k \<noteq> Key_LEFT \<and> k \<noteq> Key_A),
         right_pressed := (right_pressed s \<and> k \<noteq> Key_RIGHT \<and> k \<noteq> Key_D)\<rparr>"
  by (cases k) (simp_all add: on_key_press_def on_key_release_def process_keychange_level_over)

theorem keys_ignored_when_level_over_witness:
  "level_over (game_after [Update (frame_at 3700 3200 []), Update (frame_at 3700 3200 [])]) \<and>
   player_sprite (on_key_press Key_UP on_ground
      (game_after [Update (frame_at 3700 3200 []), Update (frame_at 3700 3200 [])])) =
   player_sprite (game_after [Update (frame_at 3700 3200 []), Update (frame_at 3700 3200 [])]) \<and>
   next_level (on_key_press Key_SPACE on_ground
      (game_after [Update (frame_at 3700 3200 []), Update (frame_at 3700 3200 [])]))"
proof -
  have a: "level_over (game_after [Update (frame_at 3700 3200 []), Update (frame_at 3700 3200 [])])"
    by code_simp
  from keys_ignored_when_level_over [OF a, of on_ground Key_UP]
       keys_ignored_when_level_over [OF a, of on_ground Key_SPACE] a
  show ?thesis by simp
qed

end
